theory Spec2Isabelle
  imports Complex_Main "HOL-Library.Sublist"
begin

section \<open>Python values, exceptions and log records\<close>

text \<open>
  The HAR loader works on whatever \<^verbatim>\<open>json.load\<close> returns, so the model keeps the
  parsed document as a JSON value and writes out what Python does when a value has not
  the expected shape. A Python float is an IEEE double: a finite one is given by its exact
  value. How a decimal text is rounded to a double is left to the runtime (below).
\<close>

datatype pyfloat = Finite rat | PosInf | NegInf | NaN

text \<open>A \<^verbatim>\<open>dict\<close> is the list of its items in insertion order; the keys of a parsed
  JSON object are distinct.\<close>

datatype json =
    JNull
  | JBool bool
  | JInt int
  | JFloat pyfloat
  | JStr string
  | JList "json list"
  | JObj "(string \<times> json) list"

text \<open>The exceptions that can leave the two modules. \<open>OSError\<close> is an
  \<^verbatim>\<open>OSError\<close> of no more special class (a name that is too long, too many symbolic
  links); \<open>ExternalError\<close> stands for whatever the browser library raises. The last two
  are raised at an \<^verbatim>\<open>await\<close> when the task is cancelled or interrupted.\<close>

datatype error =
    FileNotFoundError string
  | NotADirectoryError string
  | IsADirectoryError string
  | OSError string
  | UnicodeDecodeError
  | JSONDecodeError string
  | RecursionError
  | AttributeError
  | TypeError
  | ValueError
  | ExternalError string
  | CancelledError
  | KeyboardInterrupt

text \<open>\<^verbatim>\<open>except Exception\<close> catches every class above but the last two, which derive
  from \<^verbatim>\<open>BaseException\<close> only.\<close>

fun is_Exception :: "error \<Rightarrow> bool" where
  "is_Exception CancelledError = False"
| "is_Exception KeyboardInterrupt = False"
| "is_Exception _ = True"

text \<open>\<^verbatim>\<open>except json.JSONDecodeError\<close> catches that class alone.\<close>

fun is_JSONDecodeError :: "error \<Rightarrow> bool" where
  "is_JSONDecodeError (JSONDecodeError msg) = True"
| "is_JSONDecodeError _ = False"

datatype level = ERROR | WARNING | INFO

text \<open>One constructor per call of the module-level loggers; the argument is what the
  f-string interpolates.\<close>

datatype message =
    CannotParseHar string
  | InvalidExpires json
  | LoadedCookies nat
  | NoCookiesFound
  | NoValidSession
  | LoadSucceeded string
  | LoadFailed error

type_synonym log = "level \<times> message"

subsection \<open>What the standard library provides\<close>

text \<open>What exists at a path: a regular file with its bytes, or a directory. Where nothing
  exists, the way the lookup fails: no such entry (\<^verbatim>\<open>ENOENT\<close>), a component of the path
  that is not a directory (\<^verbatim>\<open>ENOTDIR\<close>), a name that is too long
  (\<^verbatim>\<open>ENAMETOOLONG\<close>), too many symbolic links (\<^verbatim>\<open>ELOOP\<close>), or a NUL character in
  the path, which Python refuses before it asks the operating system.\<close>

datatype fs_node = File string | Directory

datatype absence = NoEntry | NotADirectory | NameTooLong | SymlinkLoop | EmbeddedNull

text \<open>
  The parts of the Python runtime the code calls and this development does not define:
  the file system (\<open>fs p = None\<close>: nothing exists at path \<open>p\<close>, and \<open>absent p\<close> tells why;
  \<open>absent\<close> is not read for a path at which something exists), \<^verbatim>\<open>str(Path(p))\<close>,
  \<^verbatim>\<open>json.load\<close> on the bytes of a file opened as UTF-8 text (\<open>Inl e\<close>: the exception it
  raises, which is a \<^verbatim>\<open>json.JSONDecodeError\<close> with its message, a
  \<^verbatim>\<open>UnicodeDecodeError\<close> for bytes that are not UTF-8, a \<^verbatim>\<open>ValueError\<close> for an
  integer of too many digits, a \<^verbatim>\<open>RecursionError\<close> for a nesting that is too deep),
  \<^verbatim>\<open>float(s)\<close> on a \<^verbatim>\<open>str\<close> (\<open>None\<close>: \<^verbatim>\<open>ValueError\<close>), \<^verbatim>\<open>str(v)\<close> on a
  float, list or dict, and \<^verbatim>\<open>urlparse(u).netloc\<close> on a \<^verbatim>\<open>str\<close> (which can raise
  \<^verbatim>\<open>ValueError\<close>). The process may read every file that exists. Every general theorem
  below holds for any runtime.
\<close>

record runtime =
  fs :: "string \<Rightarrow> fs_node option"
  absent :: "string \<Rightarrow> absence"
  pathlib :: "string \<Rightarrow> string"
  json_load :: "string \<Rightarrow> error + json"
  float_str :: "string \<Rightarrow> pyfloat option"
  repr :: "json \<Rightarrow> string"
  netloc :: "string \<Rightarrow> error + string"

text \<open>\<^verbatim>\<open>Path.exists()\<close> of the path with text \<open>p\<close>: the errors \<^verbatim>\<open>ENOENT\<close>,
  \<^verbatim>\<open>ENOTDIR\<close> and \<^verbatim>\<open>ELOOP\<close> of \<^verbatim>\<open>stat\<close> and the \<^verbatim>\<open>ValueError\<close> for a NUL
  give False; any other \<^verbatim>\<open>OSError\<close> is raised.\<close>

definition path_exists :: "runtime \<Rightarrow> string \<Rightarrow> error + bool" where
  "path_exists rt p =
     (case fs rt p of
        Some node \<Rightarrow> Inr True
      | None \<Rightarrow>
          (case absent rt p of
             NameTooLong \<Rightarrow> Inl (OSError p)
           | _ \<Rightarrow> Inr False))"

text \<open>\<^verbatim>\<open>open(p, 'r', encoding='utf-8')\<close>: the bytes of the file, which are decoded when
  they are read, or the exception raised.\<close>

definition py_open :: "runtime \<Rightarrow> string \<Rightarrow> error + string" where
  "py_open rt p =
     (case fs rt p of
        Some (File content) \<Rightarrow> Inr content
      | Some Directory \<Rightarrow> Inl (IsADirectoryError p)
      | None \<Rightarrow>
          (case absent rt p of
             NoEntry \<Rightarrow> Inl (FileNotFoundError p)
           | NotADirectory \<Rightarrow> Inl (NotADirectoryError p)
           | NameTooLong \<Rightarrow> Inl (OSError p)
           | SymlinkLoop \<Rightarrow> Inl (OSError p)
           | EmbeddedNull \<Rightarrow> Inl ValueError))"

subsection \<open>Built-in operations on values\<close>

text \<open>Truth value of an object, as \<^verbatim>\<open>if x:\<close> tests it.\<close>

fun truthy :: "json \<Rightarrow> bool" where
  "truthy JNull = False"
| "truthy (JBool b) = b"
| "truthy (JInt i) = (i \<noteq> 0)"
| "truthy (JFloat f) = (f \<noteq> Finite 0)"
| "truthy (JStr s) = (s \<noteq> [])"
| "truthy (JList xs) = (xs \<noteq> [])"
| "truthy (JObj kvs) = (kvs \<noteq> [])"

text \<open>\<^verbatim>\<open>d.get(k, default)\<close>: only a dict has the method.\<close>

fun dict_get :: "json \<Rightarrow> string \<Rightarrow> json \<Rightarrow> error + json" where
  "dict_get (JObj kvs) k d = Inr (case map_of kvs k of Some v \<Rightarrow> v | None \<Rightarrow> d)"
| "dict_get _ k d = Inl AttributeError"

text \<open>\<^verbatim>\<open>obj.get(outer, {}).get(k, default)\<close>\<close>

definition sub_get :: "json \<Rightarrow> string \<Rightarrow> string \<Rightarrow> json \<Rightarrow> error + json" where
  "sub_get obj outer k d =
     (case dict_get obj outer (JObj []) of
        Inl e \<Rightarrow> Inl e
      | Inr inner \<Rightarrow> dict_get inner k d)"

text \<open>\<^verbatim>\<open>for x in v\<close>: a list gives its elements, a dict its keys, a str its characters;
  anything else is not iterable.\<close>

fun py_iter :: "json \<Rightarrow> error + json list" where
  "py_iter (JList xs) = Inr xs"
| "py_iter (JObj kvs) = Inr (map (\<lambda>kv. JStr (fst kv)) kvs)"
| "py_iter (JStr s) = Inr (map (\<lambda>c. JStr [c]) s)"
| "py_iter _ = Inl TypeError"

text \<open>\<^verbatim>\<open>isinstance(v, (int, float))\<close>; \<^verbatim>\<open>bool\<close> is a subclass of \<^verbatim>\<open>int\<close>.\<close>

fun isinstance_int_float :: "json \<Rightarrow> bool" where
  "isinstance_int_float (JInt _) = True"
| "isinstance_int_float (JFloat _) = True"
| "isinstance_int_float (JBool _) = True"
| "isinstance_int_float _ = False"

text \<open>\<^verbatim>\<open>float(v)\<close>. A str is parsed by the runtime; None, a list or a dict raise
  \<^verbatim>\<open>TypeError\<close>. (Numbers never reach the call in this program; for them the value is the
  number itself, rounding of ints beyond 53 bits left aside.)\<close>

fun py_float :: "runtime \<Rightarrow> json \<Rightarrow> error + pyfloat" where
  "py_float rt (JStr s) = (case float_str rt s of Some f \<Rightarrow> Inr f | None \<Rightarrow> Inl ValueError)"
| "py_float rt (JFloat f) = Inr f"
| "py_float rt (JInt i) = Inr (Finite (of_int i))"
| "py_float rt (JBool b) = Inr (Finite (if b then 1 else 0))"
| "py_float rt _ = Inl TypeError"

text \<open>\<^verbatim>\<open>v == n\<close> for an int \<open>n\<close>: numbers compare by value, nothing else equals an int.\<close>

fun py_eq_int :: "json \<Rightarrow> int \<Rightarrow> bool" where
  "py_eq_int (JInt i) n = (i = n)"
| "py_eq_int (JBool b) n = ((if b then 1 else 0) = n)"
| "py_eq_int (JFloat (Finite r)) n = (r = of_int n)"
| "py_eq_int _ n = False"

text \<open>\<^verbatim>\<open>v in xs\<close> for a list of ints.\<close>

definition py_in :: "json \<Rightarrow> int list \<Rightarrow> bool" where
  "py_in v xs = list_ex (py_eq_int v) xs"

text \<open>Decimal text of an int, for \<^verbatim>\<open>str\<close>.\<close>

fun str_nat :: "nat \<Rightarrow> string" where
  "str_nat n =
     (if n < 10 then [''0123456789'' ! n]
      else str_nat (n div 10) @ [''0123456789'' ! (n mod 10)])"

definition str_int :: "int \<Rightarrow> string" where
  "str_int i = (if i < 0 then ''-'' @ str_nat (nat (- i)) else str_nat (nat i))"

text \<open>\<^verbatim>\<open>str(v)\<close>, which is what an f-string field \<^verbatim>\<open>{v}\<close> inserts.\<close>

fun py_str :: "runtime \<Rightarrow> json \<Rightarrow> string" where
  "py_str rt (JStr s) = s"
| "py_str rt JNull = ''None''"
| "py_str rt (JBool b) = (if b then ''True'' else ''False'')"
| "py_str rt (JInt i) = str_int i"
| "py_str rt v = repr rt v"

declare str_nat.simps [simp del]

section \<open>The HAR loader (browser\_use/browser/utils/har\_loader.py)\<close>

subsection \<open>The domain filter\<close>

text \<open>
  Both methods filter an entry with the same lines:
  \<^verbatim>\<open>
  if filter_domains:
      domain = urlparse(request_url).netloc
      if not any(domain.endswith(d) for d in filter_domains):
          continue
  \<close>
  \<open>domain_filter\<close> is \<open>Inr True\<close> when the entry goes on, \<open>Inr False\<close> when
  \<^verbatim>\<open>continue\<close> is reached. None and the empty list are both false in the outer test.
  For a URL that is not a str, \<^verbatim>\<open>urlparse\<close> calls \<^verbatim>\<open>decode\<close> on a true value
  (\<^verbatim>\<open>AttributeError\<close>) and turns a false one into a bytes result, whose
  \<^verbatim>\<open>endswith\<close> refuses a str (\<^verbatim>\<open>TypeError\<close>).
\<close>

definition domain_filter :: "runtime \<Rightarrow> string list option \<Rightarrow> json \<Rightarrow> error + bool" where
  "domain_filter rt filter_domains request_url =
     (case filter_domains of
        None \<Rightarrow> Inr True
      | Some [] \<Rightarrow> Inr True
      | Some (d # ds) \<Rightarrow>
          (case request_url of
             JStr u \<Rightarrow>
               (case netloc rt u of
                  Inl e \<Rightarrow> Inl e
                | Inr dm \<Rightarrow> Inr (list_ex (\<lambda>d'. suffix d' dm) (d # ds)))
           | other \<Rightarrow> Inl (if truthy other then AttributeError else TypeError)))"

subsection \<open>Cookie extraction\<close>

text \<open>The dict built for Playwright, with its eight keys.\<close>

record cookie_obj =
  name :: json
  value' :: json
  domain :: json
  path :: json
  expires :: json
  httpOnly :: json
  secure :: json
  sameSite :: json

text \<open>The three locals the loops of \<^verbatim>\<open>load_cookies_from_har\<close> update, the logger's
  output being the third.\<close>

record extraction =
  cookies :: "cookie_obj list"
  processed_cookies :: "string set"
  logged :: "log list"

text \<open>\<^verbatim>\<open>kvs.get(k, d)\<close> on the items of a dict.\<close>

definition get_or :: "(string \<times> json) list \<Rightarrow> string \<Rightarrow> json \<Rightarrow> json" where
  "get_or kvs k d = (case map_of kvs k of Some v \<Rightarrow> v | None \<Rightarrow> d)"

text \<open>The f-string of line 66: \<^verbatim>\<open>str(cookie.get('name'))\<close>, an at sign, and
  \<^verbatim>\<open>str(cookie.get('domain'))\<close>.\<close>

definition cookie_key :: "runtime \<Rightarrow> (string \<times> json) list \<Rightarrow> string" where
  "cookie_key rt cookie =
     py_str rt (get_or cookie ''name'' JNull) @ ''@'' @ py_str rt (get_or cookie ''domain'' JNull)"

text \<open>
  Lines 75 to 83: the value of \<^verbatim>\<open>expires\<close> and the warning logged on the way.
  \<^verbatim>\<open>
  expires_value = cookie.get('expires', -1)
  if expires_value is not None and not isinstance(expires_value, (int, float)):
      try:
          expires_value = float(expires_value)
      except (ValueError, TypeError):
          expires_value = -1
          logger.warning(...)
  \<close>
\<close>

definition normalize_expires :: "runtime \<Rightarrow> (string \<times> json) list \<Rightarrow> json \<times> log list" where
  "normalize_expires rt cookie =
     (let expires_value = get_or cookie ''expires'' (JInt (- 1)) in
      if expires_value \<noteq> JNull \<and> \<not> isinstance_int_float expires_value then
        (case py_float rt expires_value of
           Inr f \<Rightarrow> (JFloat f, [])
         | Inl _ \<Rightarrow> (JInt (- 1), [(WARNING, InvalidExpires (get_or cookie ''name'' JNull))]))
      else (expires_value, []))"

definition make_cookie_obj :: "runtime \<Rightarrow> (string \<times> json) list \<Rightarrow> cookie_obj" where
  "make_cookie_obj rt cookie =
     \<lparr> name = get_or cookie ''name'' JNull,
       value' = get_or cookie ''value'' JNull,
       domain = get_or cookie ''domain'' JNull,
       path = get_or cookie ''path'' (JStr ''/''),
       expires = fst (normalize_expires rt cookie),
       httpOnly = get_or cookie ''httpOnly'' (JBool False),
       secure = get_or cookie ''secure'' (JBool False),
       sameSite = get_or cookie ''sameSite'' (JStr ''Lax'') \<rparr>"

text \<open>The body of the inner loop for a cookie that is a dict (lines 66 to 95).\<close>

definition process_cookie :: "runtime \<Rightarrow> (string \<times> json) list \<Rightarrow> extraction \<Rightarrow> extraction" where
  "process_cookie rt cookie st =
     (let cookie_key = cookie_key rt cookie in
      if cookie_key \<in> processed_cookies st then st
      else
        \<lparr> cookies = cookies st @ [make_cookie_obj rt cookie],
          processed_cookies = insert cookie_key (processed_cookies st),
          logged = logged st @ snd (normalize_expires rt cookie) \<rparr>)"

text \<open>\<^verbatim>\<open>for cookie in ...\<close>: a cookie that is not a dict has no \<^verbatim>\<open>get\<close>. The result
  is the exception raised, if any, and the locals as they are then.\<close>

fun cookie_loop :: "runtime \<Rightarrow> json list \<Rightarrow> extraction \<Rightarrow> error option \<times> extraction" where
  "cookie_loop rt [] st = (None, st)"
| "cookie_loop rt (JObj cookie # rest) st = cookie_loop rt rest (process_cookie rt cookie st)"
| "cookie_loop rt (_ # rest) st = (Some AttributeError, st)"

text \<open>\<^verbatim>\<open>for header in ...: if header.get('name', '').lower() == 'set-cookie': pass\<close>.
  Nothing is done with a header, but looking at it can fail: the header must be a dict and
  its name a str.\<close>

fun header_loop :: "json list \<Rightarrow> error option" where
  "header_loop [] = None"
| "header_loop (JObj header # rest) =
     (case get_or header ''name'' (JStr []) of
        JStr _ \<Rightarrow> header_loop rest
      | _ \<Rightarrow> Some AttributeError)"
| "header_loop (_ # rest) = Some AttributeError"

text \<open>The body of the outer loop, for one entry (lines 56 to 102).\<close>

definition cookie_entry ::
  "runtime \<Rightarrow> string list option \<Rightarrow> json \<Rightarrow> extraction \<Rightarrow> error option \<times> extraction" where
  "cookie_entry rt filter_domains entry st =
     (case sub_get entry ''request'' ''url'' (JStr []) of
        Inl e \<Rightarrow> (Some e, st)
      | Inr request_url \<Rightarrow>
     (case domain_filter rt filter_domains request_url of
        Inl e \<Rightarrow> (Some e, st)
      | Inr False \<Rightarrow> (None, st)
      | Inr True \<Rightarrow>
     (case sub_get entry ''request'' ''cookies'' (JList []) of
        Inl e \<Rightarrow> (Some e, st)
      | Inr cs \<Rightarrow>
     (case py_iter cs of
        Inl e \<Rightarrow> (Some e, st)
      | Inr cookie_list \<Rightarrow>
     (case cookie_loop rt cookie_list st of
        (Some e, st') \<Rightarrow> (Some e, st')
      | (None, st') \<Rightarrow>
     (case sub_get entry ''response'' ''headers'' (JList []) of
        Inl e \<Rightarrow> (Some e, st')
      | Inr hs \<Rightarrow>
     (case py_iter hs of
        Inl e \<Rightarrow> (Some e, st')
      | Inr header_list \<Rightarrow> (header_loop header_list, st'))))))))"

fun entry_loop ::
  "runtime \<Rightarrow> string list option \<Rightarrow> json list \<Rightarrow> extraction \<Rightarrow> error option \<times> extraction" where
  "entry_loop rt filter_domains [] st = (None, st)"
| "entry_loop rt filter_domains (entry # rest) st =
     (case cookie_entry rt filter_domains entry st of
        (Some e, st') \<Rightarrow> (Some e, st')
      | (None, st') \<Rightarrow> entry_loop rt filter_domains rest st')"

text \<open>\<^verbatim>\<open>har_data.get('log', {}).get('entries', [])\<close>, iterated.\<close>

definition har_entries :: "json \<Rightarrow> error + json list" where
  "har_entries har_data =
     (case sub_get har_data ''log'' ''entries'' (JList []) of
        Inl e \<Rightarrow> Inl e
      | Inr es \<Rightarrow> py_iter es)"

text \<open>What a call leaves behind: what it returns or raises, the browser context (its
  cookie jar) and the log records written.\<close>

record ('a, 'c) run =
  outcome :: "error + 'a"
  jar :: 'c
  logs :: "log list"

text \<open>
  \<^verbatim>\<open>HarLoader.load_cookies_from_har(context, har_file_path, filter_domains)\<close>.
  The existence check of line 40 and the \<^verbatim>\<open>open\<close> of line 44 both work on
  \<^verbatim>\<open>Path(har_file_path)\<close>, the message of line 41 names the argument as it was given.
  Of the exceptions of \<^verbatim>\<open>json.load\<close>, line 47 catches \<^verbatim>\<open>json.JSONDecodeError\<close>
  alone: it is logged and raised again; any other one leaves the method with no log record.
  The Playwright context is a state \<open>ctx\<close> with its method \<open>add_cookies\<close>, which gives the
  exception it raises, if any, and the state after the call. \<open>processed_cookies\<close> starts
  empty in every call.
\<close>

definition load_cookies_from_har ::
  "runtime \<Rightarrow> ('c \<Rightarrow> cookie_obj list \<Rightarrow> error option \<times> 'c) \<Rightarrow> 'c \<Rightarrow> string \<Rightarrow>
   string list option \<Rightarrow> (cookie_obj list, 'c) run" where
  "load_cookies_from_har rt add_cookies ctx har_file_path filter_domains =
     (let har_path = pathlib rt har_file_path in
      case path_exists rt har_path of
        Inl e \<Rightarrow> \<lparr> outcome = Inl e, jar = ctx, logs = [] \<rparr>
      | Inr False \<Rightarrow> \<lparr> outcome = Inl (FileNotFoundError har_file_path), jar = ctx, logs = [] \<rparr>
      | Inr True \<Rightarrow>
     (case py_open rt har_path of
        Inl e \<Rightarrow> \<lparr> outcome = Inl e, jar = ctx, logs = [] \<rparr>
      | Inr content \<Rightarrow>
     (case json_load rt content of
        Inl e \<Rightarrow>
          \<lparr> outcome = Inl e, jar = ctx,
            logs = (if is_JSONDecodeError e then [(ERROR, CannotParseHar har_file_path)]
                    else []) \<rparr>
      | Inr har_data \<Rightarrow>
     (case har_entries har_data of
        Inl e \<Rightarrow> \<lparr> outcome = Inl e, jar = ctx, logs = [] \<rparr>
      | Inr entries \<Rightarrow>
     (case entry_loop rt filter_domains entries
             \<lparr> cookies = [], processed_cookies = {}, logged = [] \<rparr> of
        (Some e, st) \<Rightarrow> \<lparr> outcome = Inl e, jar = ctx, logs = logged st \<rparr>
      | (None, st) \<Rightarrow>
          if cookies st \<noteq> [] then
            (case add_cookies ctx (cookies st) of
               (Some e, ctx') \<Rightarrow>
                 \<lparr> outcome = Inl e, jar = ctx',
                   logs = logged st @ [(INFO, LoadedCookies (length (cookies st)))] \<rparr>
             | (None, ctx') \<Rightarrow>
                 \<lparr> outcome = Inr (cookies st), jar = ctx',
                   logs = logged st @ [(INFO, LoadedCookies (length (cookies st)))] \<rparr>)
          else
            \<lparr> outcome = Inr (cookies st), jar = ctx,
              logs = logged st @ [(WARNING, NoCookiesFound)] \<rparr>)))))"

subsection \<open>URL extraction\<close>

text \<open>The body of the loop of \<^verbatim>\<open>extract_urls_from_har\<close> for one entry (lines 136 to
  149): \<open>urls\<close> with the entry's URL appended, or unchanged after \<^verbatim>\<open>continue\<close>.\<close>

definition url_entry ::
  "runtime \<Rightarrow> string list option \<Rightarrow> int list option \<Rightarrow> json \<Rightarrow> json list \<Rightarrow> error + json list" where
  "url_entry rt filter_domains status_filter entry urls =
     (case sub_get entry ''request'' ''url'' (JStr []) of
        Inl e \<Rightarrow> Inl e
      | Inr url \<Rightarrow>
     (case sub_get entry ''response'' ''status'' (JInt 0) of
        Inl e \<Rightarrow> Inl e
      | Inr status \<Rightarrow>
          if (case status_filter of None \<Rightarrow> False | Some sf \<Rightarrow> sf \<noteq> [] \<and> \<not> py_in status sf)
          then Inr urls
          else
            (case domain_filter rt filter_domains url of
               Inl e \<Rightarrow> Inl e
             | Inr False \<Rightarrow> Inr urls
             | Inr True \<Rightarrow> Inr (urls @ [url]))))"

fun url_loop ::
  "runtime \<Rightarrow> string list option \<Rightarrow> int list option \<Rightarrow> json list \<Rightarrow> json list \<Rightarrow> error + json list" where
  "url_loop rt filter_domains status_filter [] urls = Inr urls"
| "url_loop rt filter_domains status_filter (entry # rest) urls =
     (case url_entry rt filter_domains status_filter entry urls of
        Inl e \<Rightarrow> Inl e
      | Inr urls' \<Rightarrow> url_loop rt filter_domains status_filter rest urls')"

text \<open>
  \<^verbatim>\<open>HarLoader.extract_urls_from_har(har_file_path, filter_domains, status_filter)\<close>.
  There is no check of the path and no \<^verbatim>\<open>try\<close>: whatever \<^verbatim>\<open>open\<close> raises on the
  argument as it was given, and whatever \<^verbatim>\<open>json.load\<close> raises, leaves the method. The
  method has no logger call.
\<close>

definition extract_urls_from_har ::
  "runtime \<Rightarrow> string \<Rightarrow> string list option \<Rightarrow> int list option \<Rightarrow> error + json list" where
  "extract_urls_from_har rt har_file_path filter_domains status_filter =
     (case py_open rt har_file_path of
        Inl e \<Rightarrow> Inl e
      | Inr content \<Rightarrow>
     (case json_load rt content of
        Inl e \<Rightarrow> Inl e
      | Inr har_data \<Rightarrow>
     (case har_entries har_data of
        Inl e \<Rightarrow> Inl e
      | Inr entries \<Rightarrow> url_loop rt filter_domains status_filter entries [])))"

section \<open>The extension (browser\_use/browser/extensions/har\_extension.py)\<close>

text \<open>The session object that \<^verbatim>\<open>context.get_session()\<close> returns: its \<^verbatim>\<open>context\<close>
  attribute is the Playwright context or None.\<close>

record 'c session =
  session_context :: "'c option"

text \<open>
  \<^verbatim>\<open>HarExtension.load_from_har(context, har_file_path, filter_domains)\<close>. The argument
  \<open>context\<close> is None, on which line 26 finds no \<^verbatim>\<open>get_session\<close>, or what awaiting
  \<^verbatim>\<open>context.get_session()\<close> gives: an exception, None, or a session. Line 26 is outside
  the \<^verbatim>\<open>try\<close>. The handler of line 39 is \<^verbatim>\<open>except Exception\<close>: an exception of
  another class passes it with no log record. The \<open>jar\<close> of the result is the Playwright
  context after the call, when there is one.
\<close>

definition load_from_har ::
  "runtime \<Rightarrow> ('c \<Rightarrow> cookie_obj list \<Rightarrow> error option \<times> 'c) \<Rightarrow>
   (error + 'c session option) option \<Rightarrow> string \<Rightarrow> string list option \<Rightarrow> (unit, 'c option) run" where
  "load_from_har rt add_cookies context har_file_path filter_domains =
     (case context of
        None \<Rightarrow> \<lparr> outcome = Inl AttributeError, jar = None, logs = [] \<rparr>
      | Some get_session \<Rightarrow>
     (case get_session of
        Inl e \<Rightarrow> \<lparr> outcome = Inl e, jar = None, logs = [] \<rparr>
      | Inr None \<Rightarrow> \<lparr> outcome = Inr (), jar = None, logs = [(ERROR, NoValidSession)] \<rparr>
      | Inr (Some session) \<Rightarrow>
          (case session_context session of
             None \<Rightarrow> \<lparr> outcome = Inr (), jar = None, logs = [(ERROR, NoValidSession)] \<rparr>
           | Some ctx \<Rightarrow>
               (let r = load_cookies_from_har rt add_cookies ctx har_file_path filter_domains in
                case outcome r of
                  Inr _ \<Rightarrow>
                    \<lparr> outcome = Inr (), jar = Some (jar r),
                      logs = logs r @ [(INFO, LoadSucceeded har_file_path)] \<rparr>
                | Inl e \<Rightarrow>
                    if is_Exception e then
                      \<lparr> outcome = Inl e, jar = Some (jar r),
                        logs = logs r @ [(ERROR, LoadFailed e)] \<rparr>
                    else \<lparr> outcome = Inl e, jar = Some (jar r), logs = logs r \<rparr>))))"

text \<open>
  \<^verbatim>\<open>HarExtension.extract_urls_from_har(har_file_path, filter_domains=None,
  status_filter=[200])\<close>. The last argument is \<open>None\<close> when the caller leaves it out, so
  that the default of the signature applies, and \<open>Some sf\<close> when the caller passes \<open>sf\<close>
  (which may itself be None).
\<close>

definition HarExtension_extract_urls_from_har ::
  "runtime \<Rightarrow> string \<Rightarrow> string list option \<Rightarrow> int list option option \<Rightarrow> error + json list" where
  "HarExtension_extract_urls_from_har rt har_file_path filter_domains status_filter =
     extract_urls_from_har rt har_file_path filter_domains
       (case status_filter of None \<Rightarrow> Some [200] | Some sf \<Rightarrow> sf)"

section \<open>What an entry contributes\<close>

text \<open>The request URL and the response status as the loops read them, with the defaults
  of the two \<^verbatim>\<open>get\<close> calls. (For an entry on which the lookup raises, the value is
  None; \<open>entry_ok\<close>, below, excludes such entries.)\<close>

definition request_url :: "json \<Rightarrow> json" where
  "request_url entry =
     (case sub_get entry ''request'' ''url'' (JStr []) of Inr url \<Rightarrow> url | Inl _ \<Rightarrow> JNull)"

definition response_status :: "json \<Rightarrow> json" where
  "response_status entry =
     (case sub_get entry ''response'' ''status'' (JInt 0) of Inr status \<Rightarrow> status | Inl _ \<Rightarrow> JNull)"

definition returns :: "error + 'a \<Rightarrow> bool" where
  "returns r = (case r of Inl _ \<Rightarrow> False | Inr _ \<Rightarrow> True)"

text \<open>The status test of line 140: a filter that is None or empty lets every status
  through, any other filter the statuses equal to one of its members.\<close>

definition status_admitted :: "int list option \<Rightarrow> json \<Rightarrow> bool" where
  "status_admitted status_filter status =
     (case status_filter of
        None \<Rightarrow> True
      | Some [] \<Rightarrow> True
      | Some (x # xs) \<Rightarrow> py_in status (x # xs))"

text \<open>An entry the body of the URL loop gets through without an exception: the entry, its
  request and its response are dicts where present and, if the status passes the status
  filter, so that line 145 is reached, the domain filter can be applied to its URL.\<close>

definition entry_ok :: "runtime \<Rightarrow> string list option \<Rightarrow> int list option \<Rightarrow> json \<Rightarrow> bool" where
  "entry_ok rt filter_domains status_filter entry =
     (returns (sub_get entry ''request'' ''url'' (JStr []))
      \<and> returns (sub_get entry ''response'' ''status'' (JInt 0))
      \<and> (\<not> status_admitted status_filter (response_status entry)
           \<or> returns (domain_filter rt filter_domains (request_url entry))))"

definition domain_admitted :: "runtime \<Rightarrow> string list option \<Rightarrow> json \<Rightarrow> bool" where
  "domain_admitted rt filter_domains url = (domain_filter rt filter_domains url = Inr True)"

definition admitted :: "runtime \<Rightarrow> string list option \<Rightarrow> int list option \<Rightarrow> json \<Rightarrow> bool" where
  "admitted rt filter_domains status_filter entry =
     (status_admitted status_filter (response_status entry)
      \<and> domain_admitted rt filter_domains (request_url entry))"

text \<open>The key of line 66 computed from a record that was emitted (name and domain are
  copied into the record as they are), and what the loops maintain about it: the set
  \<open>processed_cookies\<close> holds exactly the keys of the records emitted so far, and no two of
  these records have the same key.\<close>

definition key_of :: "runtime \<Rightarrow> cookie_obj \<Rightarrow> string" where
  "key_of rt c = py_str rt (name c) @ ''@'' @ py_str rt (domain c)"

definition keys_tracked :: "runtime \<Rightarrow> extraction \<Rightarrow> bool" where
  "keys_tracked rt st =
     (processed_cookies st = set (map (key_of rt) (cookies st))
      \<and> distinct (map (key_of rt) (cookies st)))"

text \<open>The cookies the inner loop visits in a run that raises nothing: the request cookies
  (dicts) of the entries that pass the domain filter, in order.\<close>

fun raw_cookies :: "json list \<Rightarrow> (string \<times> json) list list" where
  "raw_cookies [] = []"
| "raw_cookies (JObj cookie # rest) = cookie # raw_cookies rest"
| "raw_cookies (_ # rest) = raw_cookies rest"

definition entry_cookies :: "json \<Rightarrow> (string \<times> json) list list" where
  "entry_cookies entry =
     (case sub_get entry ''request'' ''cookies'' (JList []) of
        Inl _ \<Rightarrow> []
      | Inr cs \<Rightarrow> (case py_iter cs of Inl _ \<Rightarrow> [] | Inr cookie_list \<Rightarrow> raw_cookies cookie_list))"

definition visited :: "runtime \<Rightarrow> string list option \<Rightarrow> json list \<Rightarrow> (string \<times> json) list list" where
  "visited rt filter_domains entries =
     concat (map entry_cookies
       (filter (\<lambda>entry. domain_admitted rt filter_domains (request_url entry)) entries))"

text \<open>Of a list of cookies, the first one for each key that is not in \<open>seen\<close>.\<close>

fun first_by_key ::
  "runtime \<Rightarrow> string set \<Rightarrow> (string \<times> json) list list \<Rightarrow> (string \<times> json) list list" where
  "first_by_key rt seen [] = []"
| "first_by_key rt seen (cookie # rest) =
     (if cookie_key rt cookie \<in> seen then first_by_key rt seen rest
      else cookie # first_by_key rt (insert (cookie_key rt cookie) seen) rest)"

text \<open>The locals after the loops have visited \<open>raws\<close>, against the locals before.\<close>

definition follows :: "runtime \<Rightarrow> (string \<times> json) list list \<Rightarrow> extraction \<Rightarrow> extraction \<Rightarrow> bool" where
  "follows rt raws st st' =
     (cookies st' = cookies st @ map (make_cookie_obj rt) (first_by_key rt (processed_cookies st) raws)
      \<and> processed_cookies st' = processed_cookies st \<union> cookie_key rt ` set raws)"


section \<open>A concrete runtime and sample HAR files\<close>

text \<open>
  \<^verbatim>\<open>urllib.parse.urlparse(url).netloc\<close> as \<^verbatim>\<open>urlsplit\<close> of Python 3.11 computes it,
  for a URL of characters below 256. Leading characters up to the space (code 32) are
  stripped, then every tab, line feed and carriage return is removed. A leading scheme (a
  letter, then letters, digits, \<open>+\<close>, \<open>-\<close>, \<open>.\<close>, up to the first colon) is cut off; if the
  rest starts with two slashes, the netloc runs from there to the first \<open>/\<close>, \<open>?\<close> or \<open>#\<close>;
  otherwise it is empty. A netloc with only one of the two brackets is a
  \<^verbatim>\<open>ValueError\<close>, and so is one with both whose text between the first \<open>[\<close> and the
  next \<open>]\<close> is not an IPv6 or IPvFuture literal, which the argument \<open>ip_literal\<close> decides
  (Python asks the module \<^verbatim>\<open>ipaddress\<close>). User information and port are part of the
  netloc.
\<close>

definition letters :: string where
  "letters = ''abcdefghijklmnopqrstuvwxyzABCDEFGHIJKLMNOPQRSTUVWXYZ''"

definition scheme_chars :: string where
  "scheme_chars = letters @ ''0123456789+-.''"

definition strip_scheme :: "string \<Rightarrow> string" where
  "strip_scheme url =
     (let i = length (takeWhile (\<lambda>c. c \<noteq> CHR '':'') url) in
      if i < length url \<and> 0 < i \<and> hd url \<in> set letters
         \<and> list_all (\<lambda>c. c \<in> set scheme_chars) (take i url)
      then drop (i + 1) url else url)"

definition urlparse_netloc :: "(string \<Rightarrow> bool) \<Rightarrow> string \<Rightarrow> error + string" where
  "urlparse_netloc ip_literal url =
     (let stripped = dropWhile (\<lambda>c. of_char c \<le> (32 :: nat)) url;
          cleaned = filter (\<lambda>c. of_char c \<notin> {9, 10, 13 :: nat}) stripped;
          rest = strip_scheme cleaned in
      if take 2 rest = ''//'' then
        (let nl = takeWhile (\<lambda>c. c \<notin> set ''/?#'') (drop 2 rest) in
         if (CHR ''['' \<in> set nl) \<noteq> (CHR '']'' \<in> set nl) then Inl ValueError
         else if CHR ''['' \<in> set nl
                 \<and> \<not> ip_literal (takeWhile (\<lambda>c. c \<noteq> CHR '']'')
                                    (drop 1 (dropWhile (\<lambda>c. c \<noteq> CHR ''['') nl)))
         then Inl ValueError
         else Inr nl)
      else Inr [])"

text \<open>
  \<^verbatim>\<open>str(Path(p))\<close> on a POSIX system: empty components and components that are a single
  dot are dropped, a trailing slash with them; exactly two leading slashes are kept,
  any other number of them is one; the path with nothing left is the dot.
\<close>

fun split_on :: "char \<Rightarrow> string \<Rightarrow> string list" where
  "split_on sep [] = [[]]"
| "split_on sep (c # cs) =
     (if c = sep then [] # split_on sep cs
      else (case split_on sep cs of
              [] \<Rightarrow> [[c]]
            | part # parts \<Rightarrow> (c # part) # parts))"

fun join_with :: "char \<Rightarrow> string list \<Rightarrow> string" where
  "join_with sep [] = []"
| "join_with sep [part] = part"
| "join_with sep (part # parts) = part @ sep # join_with sep parts"

definition posix_path :: "string \<Rightarrow> string" where
  "posix_path p =
     (let root = (if take 2 p = ''//'' \<and> take 3 p \<noteq> ''///'' then ''//''
                  else if take 1 p = ''/'' then ''/'' else []);
          parts = filter (\<lambda>part. part \<noteq> [] \<and> part \<noteq> ''.'') (split_on CHR ''/'' p) in
      if root = [] \<and> parts = [] then ''.'' else root @ join_with CHR ''/'' parts)"

text \<open>
  \<^verbatim>\<open>session.har\<close>: four entries. The first two are requests to \<^verbatim>\<open>a.example.com\<close>
  to the same URL that both send the cookie \<^verbatim>\<open>sid\<close>; the third goes to \<^verbatim>\<open>b.other.com\<close> and was
  answered 404; the fourth names a port.
\<close>

definition cookie_sid :: "(string \<times> json) list" where
  "cookie_sid = [(''name'', JStr ''sid''), (''value'', JStr ''abc''),
     (''domain'', JStr ''a.example.com''), (''expires'', JStr ''1700000000'')]"

definition cookie_theme :: "(string \<times> json) list" where
  "cookie_theme = [(''name'', JStr ''theme''), (''value'', JStr ''dark''),
     (''domain'', JStr ''a.example.com''), (''expires'', JStr ''not-a-number'')]"

definition cookie_sid_again :: "(string \<times> json) list" where
  "cookie_sid_again = [(''name'', JStr ''sid''), (''value'', JStr ''xyz''),
     (''domain'', JStr ''a.example.com''), (''path'', JStr ''/home'')]"

definition cookie_track :: "(string \<times> json) list" where
  "cookie_track = [(''name'', JStr ''track''), (''value'', JStr ''1''),
     (''domain'', JStr ''b.other.com''), (''expires'', JNull)]"

definition cookie_api :: "(string \<times> json) list" where
  "cookie_api = [(''name'', JStr ''api''), (''value'', JStr ''k''),
     (''domain'', JStr ''a.example.com''), (''expires'', JInt 1800000000)]"

definition har_entry :: "string \<Rightarrow> json list \<Rightarrow> int \<Rightarrow> json" where
  "har_entry url cs status =
     JObj [(''request'', JObj [(''url'', JStr url), (''cookies'', JList cs)]),
           (''response'', JObj [(''status'', JInt status),
              (''headers'', JList [JObj [(''name'', JStr ''Set-Cookie''), (''value'', JStr ''k=v'')]])])]"

definition session_entries :: "json list" where
  "session_entries =
     [har_entry ''https://a.example.com/login'' [JObj cookie_sid, JObj cookie_theme] 200,
      har_entry ''https://a.example.com/login'' [JObj cookie_sid_again] 200,
      har_entry ''https://b.other.com/x'' [JObj cookie_track] 404,
      har_entry ''https://a.example.com:8443/api'' [JObj cookie_api] 200]"

definition session_har :: json where
  "session_har = JObj [(''log'', JObj [(''entries'', JList session_entries)])]"

text \<open>\<^verbatim>\<open>clash.har\<close>: one entry with four cookies. The first two differ in name and in
  domain; the third has no name and the fourth is named \<^verbatim>\<open>None\<close>.\<close>

definition clash_first :: "(string \<times> json) list" where
  "clash_first = [(''name'', JStr ''a''), (''domain'', JStr ''b@c''), (''value'', JStr ''1'')]"

definition clash_second :: "(string \<times> json) list" where
  "clash_second = [(''name'', JStr ''a@b''), (''domain'', JStr ''c''), (''value'', JStr ''2'')]"

definition clash_unnamed :: "(string \<times> json) list" where
  "clash_unnamed = [(''domain'', JStr ''a.example.com''), (''value'', JStr ''3'')]"

definition clash_None :: "(string \<times> json) list" where
  "clash_None = [(''name'', JStr ''None''), (''domain'', JStr ''a.example.com''),
     (''value'', JStr ''4'')]"

definition clash_har :: json where
  "clash_har = JObj [(''log'', JObj [(''entries'', JList
     [har_entry ''https://c/''
        [JObj clash_first, JObj clash_second, JObj clash_unnamed, JObj clash_None] 200])])]"

text \<open>\<^verbatim>\<open>odd.har\<close>: one entry whose second cookie is a string, not an object.\<close>

definition odd_har :: json where
  "odd_har = JObj [(''log'', JObj [(''entries'', JList
     [har_entry ''https://a.example.com/'' [JObj cookie_theme, JStr ''sid=abc''] 200])])]"

text \<open>\<^verbatim>\<open>bracket.har\<close>: two entries without cookies. The URL of the first, which was
  answered 404, has an opening bracket in its authority and no closing one.\<close>

definition bracket_entries :: "json list" where
  "bracket_entries =
     [har_entry ''http://[x/'' [] 404,
      har_entry ''https://a.example.com/login'' [] 200]"

definition bracket_har :: json where
  "bracket_har = JObj [(''log'', JObj [(''entries'', JList bracket_entries)])]"

text \<open>A cookie whose \<^verbatim>\<open>expires\<close> is a list.\<close>

definition cookie_listed :: "(string \<times> json) list" where
  "cookie_listed = [(''name'', JStr ''tags''), (''expires'', JList [JInt 1])]"

text \<open>The file system holds the four HAR files, \<^verbatim>\<open>broken.har\<close>, which is UTF-8 but
  not JSON, and \<^verbatim>\<open>latin1.har\<close>, whose bytes are not UTF-8; the current directory is a
  directory and nothing else exists. Paths are looked up as they are written, relative to the current
  directory. A path that goes on below one of the files fails with \<^verbatim>\<open>ENOTDIR\<close>, any
  other one with \<^verbatim>\<open>ENOENT\<close>. The contents are named, not spelled
  out: only the decoder reads them. The runtime's \<^verbatim>\<open>float\<close> knows one numeral and its
  \<^verbatim>\<open>ipaddress\<close> one address; no sample URL has a bracketed host.\<close>

definition sample_files :: "(string \<times> string) list" where
  "sample_files = [(''session.har'', ''SESSION''), (''clash.har'', ''CLASH''), (''odd.har'', ''ODD''),
     (''bracket.har'', ''BRACKET''), (''broken.har'', ''{''), (''latin1.har'', ''LATIN1'')]"

definition sample_rt :: runtime where
  "sample_rt =
     \<lparr> fs = (\<lambda>p. if p = ''.'' then Some Directory else map_option File (map_of sample_files p)),
       absent = (\<lambda>p. if list_ex (\<lambda>f. prefix (fst f @ ''/'') p) sample_files then NotADirectory
                     else NoEntry),
       pathlib = posix_path,
       json_load = (\<lambda>t. if t = ''SESSION'' then Inr session_har
                 else if t = ''CLASH'' then Inr clash_har
                 else if t = ''ODD'' then Inr odd_har
                 else if t = ''BRACKET'' then Inr bracket_har
                 else if t = ''LATIN1'' then Inl UnicodeDecodeError
                 else Inl (JSONDecodeError ''Expecting property name'')),
       float_str = (\<lambda>s. if s = ''1700000000'' then Some (Finite 1700000000) else None),
       repr = (\<lambda>v. ''?''),
       netloc = urlparse_netloc (\<lambda>host. host = ''::1'') \<rparr>"

text \<open>The same runtime on a file system whose paths hold eight characters at most.\<close>

definition short_paths_rt :: runtime where
  "short_paths_rt =
     sample_rt\<lparr> fs := (\<lambda>p. if 8 < length p then None else fs sample_rt p),
                absent := (\<lambda>p. if 8 < length p then NameTooLong else absent sample_rt p) \<rparr>"

text \<open>A browser context that keeps the cookies it was given, and one that refuses them.\<close>

definition add_to_jar :: "cookie_obj list \<Rightarrow> cookie_obj list \<Rightarrow> error option \<times> cookie_obj list" where
  "add_to_jar ctx cs = (None, ctx @ cs)"

definition add_fails :: "cookie_obj list \<Rightarrow> cookie_obj list \<Rightarrow> error option \<times> cookie_obj list" where
  "add_fails ctx cs = (Some (ExternalError ''Target closed''), ctx)"

text \<open>A browser context whose \<^verbatim>\<open>add_cookies\<close> is awaited when the task is cancelled.\<close>

definition add_cancelled :: "cookie_obj list \<Rightarrow> cookie_obj list \<Rightarrow> error option \<times> cookie_obj list" where
  "add_cancelled ctx cs = (Some CancelledError, ctx)"

lemmas sample_defs =
  sample_rt_def session_har_def session_entries_def har_entry_def clash_har_def
  cookie_sid_def cookie_theme_def cookie_sid_again_def cookie_track_def cookie_api_def
  clash_first_def clash_second_def clash_unnamed_def clash_None_def odd_har_def
  cookie_listed_def bracket_har_def bracket_entries_def

lemmas netloc_defs =
  urlparse_netloc_def strip_scheme_def letters_def scheme_chars_def suffix_to_prefix

lemmas cookie_defs =
  cookie_entry_def process_cookie_def cookie_key_def get_or_def make_cookie_obj_def
  normalize_expires_def

section \<open>The loops in closed form\<close>

lemma domain_filter_empty: "domain_filter rt (Some []) url = domain_filter rt None url"
  by (simp add: domain_filter_def)

lemma cookie_entry_empty: "cookie_entry rt (Some []) entry st = cookie_entry rt None entry st"
  unfolding cookie_entry_def domain_filter_empty by (rule refl)

lemma entry_loop_empty: "entry_loop rt (Some []) es st = entry_loop rt None es st"
  by (induction es arbitrary: st) (simp_all add: cookie_entry_empty split: prod.splits option.splits)

lemma url_entry_empty_domains:
  "url_entry rt (Some []) sf entry urls = url_entry rt None sf entry urls"
  unfolding url_entry_def domain_filter_empty by (rule refl)

lemma url_entry_empty_status:
  "url_entry rt fd (Some []) entry urls = url_entry rt fd None entry urls"
  by (simp add: url_entry_def split: sum.splits)

lemma url_loop_empty_domains:
  "url_loop rt (Some []) sf es urls = url_loop rt None sf es urls"
  by (induction es arbitrary: urls) (simp_all add: url_entry_empty_domains split: sum.splits)

lemma url_loop_empty_status:
  "url_loop rt fd (Some []) es urls = url_loop rt fd None es urls"
  by (induction es arbitrary: urls) (simp_all add: url_entry_empty_status split: sum.splits)

text \<open>The test of line 140 skips an entry exactly when its status is not admitted.\<close>

lemma status_test:
  "(case sf of None \<Rightarrow> False | Some xs \<Rightarrow> xs \<noteq> [] \<and> \<not> py_in status xs)
     = (\<not> status_admitted sf status)"
  by (simp add: status_admitted_def split: option.splits list.splits)

text \<open>One step of the URL loop returns exactly on an entry that is \<open>entry_ok\<close>, and so does
  the whole loop; what is returned is the list extended by the URLs of the admitted
  entries.\<close>

lemma url_entry_returns:
  "(url_entry rt fd sf entry urls = Inr urls') =
     (entry_ok rt fd sf entry
      \<and> urls' = (if admitted rt fd sf entry then urls @ [request_url entry] else urls))"
  unfolding url_entry_def status_test
  by (auto simp add: entry_ok_def request_url_def response_status_def admitted_def
        domain_admitted_def returns_def
      split: sum.splits bool.splits)

lemma url_entry_ok:
  assumes "entry_ok rt fd sf entry"
  shows "url_entry rt fd sf entry urls =
           Inr (if admitted rt fd sf entry then urls @ [request_url entry] else urls)"
  using assms url_entry_returns [of rt fd sf entry urls] by simp

lemma url_loop_returns:
  "(url_loop rt fd sf es urls = Inr urls') =
     (list_all (entry_ok rt fd sf) es
      \<and> urls' = urls @ map request_url (filter (admitted rt fd sf) es))"
proof (induction es arbitrary: urls)
  case Nil
  then show ?case by auto
next
  case (Cons entry es)
  show ?case
  proof (cases "entry_ok rt fd sf entry")
    case True
    then show ?thesis
      using Cons.IH by (simp add: url_entry_ok)
  next
    case False
    then have "url_entry rt fd sf entry urls \<noteq> Inr u" for u
      by (simp add: url_entry_returns)
    then obtain e where "url_entry rt fd sf entry urls = Inl e"
      by (cases "url_entry rt fd sf entry urls") auto
    then show ?thesis
      using False by simp
  qed
qed

lemma url_loop_closed:
  "list_all (entry_ok rt fd sf) es \<Longrightarrow>
   url_loop rt fd sf es urls = Inr (urls @ map request_url (filter (admitted rt fd sf) es))"
  using url_loop_returns [of rt fd sf es urls] by simp

text \<open>With no status filter every entry reaches the domain filter, so an entry that is
  \<open>entry_ok\<close> then is so with any status filter.\<close>

lemma entry_ok_any_status:
  "entry_ok rt fd None entry \<Longrightarrow> entry_ok rt fd sf entry"
  by (auto simp add: entry_ok_def status_admitted_def)

lemma entries_ok_any_status:
  "list_all (entry_ok rt fd None) es \<Longrightarrow> list_all (entry_ok rt fd sf) es"
  using entry_ok_any_status by (auto simp add: list_all_iff)

section \<open>Reading the file\<close>

lemma open_file:
  assumes "fs rt p = Some (File content)"
  shows "path_exists rt p = Inr True" and "py_open rt p = Inr content"
  using assms by (simp_all add: path_exists_def py_open_def)

lemma open_returns:
  "(py_open rt p = Inr content) = (fs rt p = Some (File content))"
  by (simp add: py_open_def split: option.splits fs_node.splits absence.splits)

lemma extract_urls_closed:
  assumes "fs rt p = Some (File content)"
    and "json_load rt content = Inr har_data"
    and "har_entries har_data = Inr es"
    and "list_all (entry_ok rt fd sf) es"
  shows "extract_urls_from_har rt p fd sf = Inr (map request_url (filter (admitted rt fd sf) es))"
  using assms by (simp add: extract_urls_from_har_def open_file url_loop_closed)

lemma extract_urls_returns:
  "(extract_urls_from_har rt p fd sf = Inr urls) =
     (\<exists>content har_data es.
        fs rt p = Some (File content) \<and> json_load rt content = Inr har_data
        \<and> har_entries har_data = Inr es \<and> list_all (entry_ok rt fd sf) es
        \<and> urls = map request_url (filter (admitted rt fd sf) es))"
  by (auto simp add: extract_urls_from_har_def open_returns [symmetric] url_loop_returns
      split: sum.splits)

text \<open>Cookie extraction on a file that exists and decodes, up to the end of the loops.\<close>

lemma load_cookies_on_entries:
  assumes "fs rt (pathlib rt p) = Some (File content)"
    and "json_load rt content = Inr har_data"
    and "har_entries har_data = Inr es"
  shows "load_cookies_from_har rt add_cookies ctx p fd =
     (case entry_loop rt fd es \<lparr> cookies = [], processed_cookies = {}, logged = [] \<rparr> of
        (Some e, st) \<Rightarrow> \<lparr> outcome = Inl e, jar = ctx, logs = logged st \<rparr>
      | (None, st) \<Rightarrow>
          if cookies st \<noteq> [] then
            (case add_cookies ctx (cookies st) of
               (Some e, ctx') \<Rightarrow>
                 \<lparr> outcome = Inl e, jar = ctx',
                   logs = logged st @ [(INFO, LoadedCookies (length (cookies st)))] \<rparr>
             | (None, ctx') \<Rightarrow>
                 \<lparr> outcome = Inr (cookies st), jar = ctx',
                   logs = logged st @ [(INFO, LoadedCookies (length (cookies st)))] \<rparr>)
          else
            \<lparr> outcome = Inr (cookies st), jar = ctx,
              logs = logged st @ [(WARNING, NoCookiesFound)] \<rparr>)"
  using assms by (simp add: load_cookies_from_har_def Let_def open_file)

text \<open>A call of cookie extraction that returns has read a file, decoded it and run the
  loops to their end; the list returned is the \<open>cookies\<close> of the state they end in.\<close>

lemma load_cookies_returns:
  assumes "outcome (load_cookies_from_har rt add_cookies ctx p fd) = Inr cs"
  shows "\<exists>content har_data es st.
           fs rt (pathlib rt p) = Some (File content) \<and> json_load rt content = Inr har_data
           \<and> har_entries har_data = Inr es
           \<and> entry_loop rt fd es \<lparr> cookies = [], processed_cookies = {}, logged = [] \<rparr> = (None, st)
           \<and> cookies st = cs"
proof -
  obtain content where opened: "py_open rt (pathlib rt p) = Inr content"
    using assms
    by (cases "py_open rt (pathlib rt p)")
       (simp_all add: load_cookies_from_har_def Let_def split: sum.splits bool.splits)
  then have there: "fs rt (pathlib rt p) = Some (File content)"
    by (simp add: open_returns)
  obtain har_data where decoded: "json_load rt content = Inr har_data"
    using assms there
    by (cases "json_load rt content") (simp_all add: load_cookies_from_har_def Let_def open_file)
  obtain es where entries: "har_entries har_data = Inr es"
    using assms there decoded
    by (cases "har_entries har_data") (simp_all add: load_cookies_from_har_def Let_def open_file)
  obtain r st where run: "entry_loop rt fd es \<lparr> cookies = [], processed_cookies = {}, logged = [] \<rparr>
      = (r, st)"
    by (cases "entry_loop rt fd es \<lparr> cookies = [], processed_cookies = {}, logged = [] \<rparr>")
  have "r = None \<and> cookies st = cs"
    using assms run unfolding load_cookies_on_entries [OF there decoded entries]
    by (auto split: option.splits prod.splits if_splits)
  then show ?thesis
    using there decoded entries run by blast
qed

section \<open>Missing files and undecodable files\<close>

text \<open>
  Claim C5, as amended. When nothing exists at the path, both methods fail before the
  decoder runs: the result is the same whatever decoder the runtime has, nothing is logged,
  the browser context is untouched, and the call ends there (there is no loop around it).
  \<^verbatim>\<open>load_cookies_from_har\<close> looks at \<^verbatim>\<open>Path(har_file_path)\<close> and raises
  \<^verbatim>\<open>FileNotFoundError\<close> by its own check, unless a name is too long: then the check
  itself raises \<^verbatim>\<open>OSError\<close>. \<^verbatim>\<open>extract_urls_from_har\<close> has no check and raises what
  \<^verbatim>\<open>open\<close> raises on the path as it was given: \<^verbatim>\<open>FileNotFoundError\<close> when there is
  no such entry, \<^verbatim>\<open>NotADirectoryError\<close> when the path runs through a regular file,
  \<^verbatim>\<open>OSError\<close> for a name that is too long or a loop of symbolic links,
  \<^verbatim>\<open>ValueError\<close> for a NUL character.
\<close>

theorem missing_file_raises_before_parsing:
  "(fs rt (pathlib rt har_file_path) = None \<and> absent rt (pathlib rt har_file_path) \<noteq> NameTooLong
      \<longrightarrow> load_cookies_from_har (rt\<lparr>json_load := decoder\<rparr>) add_cookies ctx har_file_path filter_domains
            = \<lparr> outcome = Inl (FileNotFoundError har_file_path), jar = ctx, logs = [] \<rparr>)
   \<and> (fs rt (pathlib rt har_file_path) = None \<and> absent rt (pathlib rt har_file_path) = NameTooLong
      \<longrightarrow> load_cookies_from_har (rt\<lparr>json_load := decoder\<rparr>) add_cookies ctx har_file_path filter_domains
            = \<lparr> outcome = Inl (OSError (pathlib rt har_file_path)), jar = ctx, logs = [] \<rparr>)
   \<and> (fs rt har_file_path = None
      \<longrightarrow> extract_urls_from_har (rt\<lparr>json_load := decoder\<rparr>) har_file_path filter_domains status_filter
            = Inl (case absent rt har_file_path of
                     NoEntry \<Rightarrow> FileNotFoundError har_file_path
                   | NotADirectory \<Rightarrow> NotADirectoryError har_file_path
                   | NameTooLong \<Rightarrow> OSError har_file_path
                   | SymlinkLoop \<Rightarrow> OSError har_file_path
                   | EmbeddedNull \<Rightarrow> ValueError))"
proof -
  let ?rt = "rt\<lparr>json_load := decoder\<rparr>"
  have checked: "load_cookies_from_har ?rt add_cookies ctx har_file_path filter_domains
            = \<lparr> outcome = Inl (FileNotFoundError har_file_path), jar = ctx, logs = [] \<rparr>"
    if "fs rt (pathlib rt har_file_path) = None" "absent rt (pathlib rt har_file_path) \<noteq> NameTooLong"
    using that
    by (simp add: load_cookies_from_har_def Let_def path_exists_def split: absence.splits)
  have too_long: "load_cookies_from_har ?rt add_cookies ctx har_file_path filter_domains
            = \<lparr> outcome = Inl (OSError (pathlib rt har_file_path)), jar = ctx, logs = [] \<rparr>"
    if "fs rt (pathlib rt har_file_path) = None" "absent rt (pathlib rt har_file_path) = NameTooLong"
    using that by (simp add: load_cookies_from_har_def Let_def path_exists_def)
  have opened: "extract_urls_from_har ?rt har_file_path filter_domains status_filter
            = Inl (case absent rt har_file_path of
                     NoEntry \<Rightarrow> FileNotFoundError har_file_path
                   | NotADirectory \<Rightarrow> NotADirectoryError har_file_path
                   | NameTooLong \<Rightarrow> OSError har_file_path
                   | SymlinkLoop \<Rightarrow> OSError har_file_path
                   | EmbeddedNull \<Rightarrow> ValueError)"
    if "fs rt har_file_path = None"
    using that by (simp add: extract_urls_from_har_def py_open_def split: absence.splits)
  show ?thesis
    using checked too_long opened by blast
qed

theorem missing_file_witness:
  "fs sample_rt (pathlib sample_rt ''missing.har'') = None
   \<and> absent sample_rt (pathlib sample_rt ''missing.har'') \<noteq> NameTooLong
   \<and> load_cookies_from_har sample_rt add_to_jar [] ''missing.har'' (Some [''example.com''])
       = \<lparr> outcome = Inl (FileNotFoundError ''missing.har''), jar = [], logs = [] \<rparr>
   \<and> fs short_paths_rt (pathlib short_paths_rt ''missing.har'') = None
   \<and> absent short_paths_rt (pathlib short_paths_rt ''missing.har'') = NameTooLong
   \<and> load_cookies_from_har short_paths_rt add_to_jar [] ''missing.har'' None
       = \<lparr> outcome = Inl (OSError ''missing.har''), jar = [], logs = [] \<rparr>
   \<and> fs sample_rt ''missing.har'' = None
   \<and> extract_urls_from_har sample_rt ''missing.har'' None (Some [200])
       = Inl (FileNotFoundError ''missing.har'')"
proof -
  have path: "pathlib sample_rt ''missing.har'' = ''missing.har''"
    "pathlib short_paths_rt ''missing.har'' = ''missing.har''"
    by (simp_all add: short_paths_rt_def sample_rt_def posix_path_def)
  have gone: "fs sample_rt ''missing.har'' = None"
    and why: "absent sample_rt ''missing.har'' = NoEntry"
    by (simp_all add: sample_rt_def sample_files_def)
  have long_gone: "fs short_paths_rt ''missing.har'' = None"
    and long_why: "absent short_paths_rt ''missing.har'' = NameTooLong"
    by (simp_all add: short_paths_rt_def)
  have same: "sample_rt\<lparr>json_load := json_load sample_rt\<rparr> = sample_rt"
    "short_paths_rt\<lparr>json_load := json_load short_paths_rt\<rparr> = short_paths_rt"
    by simp_all
  note t = missing_file_raises_before_parsing [where har_file_path = "''missing.har''"]
  have checked: "load_cookies_from_har sample_rt add_to_jar [] ''missing.har'' (Some [''example.com''])
       = \<lparr> outcome = Inl (FileNotFoundError ''missing.har''), jar = [], logs = [] \<rparr>"
    using gone why
      t [where rt = sample_rt and decoder = "json_load sample_rt" and add_cookies = add_to_jar
        and ctx = "[]" and filter_domains = "Some [''example.com'']", THEN conjunct1]
    by (simp add: same path)
  have too_long: "load_cookies_from_har short_paths_rt add_to_jar [] ''missing.har'' None
       = \<lparr> outcome = Inl (OSError ''missing.har''), jar = [], logs = [] \<rparr>"
    using long_gone long_why
      t [where rt = short_paths_rt and decoder = "json_load short_paths_rt"
        and add_cookies = add_to_jar and ctx = "[]" and filter_domains = None,
        THEN conjunct2, THEN conjunct1]
    by (simp add: same path)
  have opened: "extract_urls_from_har sample_rt ''missing.har'' None (Some [200])
       = Inl (FileNotFoundError ''missing.har'')"
    using gone why
      t [where rt = sample_rt and decoder = "json_load sample_rt" and filter_domains = None
        and status_filter = "Some [200]", THEN conjunct2, THEN conjunct2]
    by (simp add: same)
  show ?thesis
    using path gone why long_gone long_why checked too_long opened by simp
qed

text \<open>Nothing exists at \<^verbatim>\<open>session.har/x\<close>, a path below a regular file. Cookie extraction
  raises \<^verbatim>\<open>FileNotFoundError\<close>, URL extraction \<^verbatim>\<open>NotADirectoryError\<close>; and where
  paths are too long, cookie extraction raises \<^verbatim>\<open>OSError\<close>.\<close>

theorem path_below_a_file_counterexample:
  "fs sample_rt ''session.har/x'' = None
   \<and> fs sample_rt (pathlib sample_rt ''session.har/x'') = None
   \<and> load_cookies_from_har sample_rt add_to_jar [] ''session.har/x'' None
       = \<lparr> outcome = Inl (FileNotFoundError ''session.har/x''), jar = [], logs = [] \<rparr>
   \<and> extract_urls_from_har sample_rt ''session.har/x'' None None
       = Inl (NotADirectoryError ''session.har/x'')
   \<and> fs short_paths_rt (pathlib short_paths_rt ''missing.har'') = None
   \<and> load_cookies_from_har short_paths_rt add_to_jar [] ''missing.har'' None
       = \<lparr> outcome = Inl (OSError ''missing.har''), jar = [], logs = [] \<rparr>"
proof -
  have path: "pathlib sample_rt ''session.har/x'' = ''session.har/x''"
    "pathlib short_paths_rt ''missing.har'' = ''missing.har''"
    by (simp_all add: short_paths_rt_def sample_rt_def posix_path_def)
  have gone: "fs sample_rt ''session.har/x'' = None"
    and why: "absent sample_rt ''session.har/x'' = NotADirectory"
    by (simp_all add: sample_rt_def sample_files_def)
  have long_gone: "fs short_paths_rt ''missing.har'' = None"
    and long_why: "absent short_paths_rt ''missing.har'' = NameTooLong"
    by (simp_all add: short_paths_rt_def)
  have checked: "load_cookies_from_har sample_rt add_to_jar [] ''session.har/x'' None
       = \<lparr> outcome = Inl (FileNotFoundError ''session.har/x''), jar = [], logs = [] \<rparr>"
    by (simp add: load_cookies_from_har_def Let_def path_exists_def path gone why)
  have opened: "extract_urls_from_har sample_rt ''session.har/x'' None None
       = Inl (NotADirectoryError ''session.har/x'')"
    by (simp add: extract_urls_from_har_def py_open_def gone why)
  have too_long: "load_cookies_from_har short_paths_rt add_to_jar [] ''missing.har'' None
       = \<lparr> outcome = Inl (OSError ''missing.har''), jar = [], logs = [] \<rparr>"
    by (simp add: load_cookies_from_har_def Let_def path_exists_def path long_gone long_why)
  show ?thesis
    using path gone checked opened long_gone too_long by simp
qed

text \<open>
  Claim C6, as amended. When the file exists and \<^verbatim>\<open>json.load\<close> raises
  \<^verbatim>\<open>json.JSONDecodeError\<close>, \<^verbatim>\<open>load_cookies_from_har\<close> logs one error naming the
  file and raises the exception again; when \<^verbatim>\<open>json.load\<close> raises anything else (a
  \<^verbatim>\<open>UnicodeDecodeError\<close> for bytes that are not UTF-8, a \<^verbatim>\<open>ValueError\<close>, a
  \<^verbatim>\<open>RecursionError\<close>), line 47 does not catch it and nothing is logged.
  \<^verbatim>\<open>extract_urls_from_har\<close>, which has neither a \<^verbatim>\<open>try\<close> nor a logger call, raises
  what \<^verbatim>\<open>json.load\<close> raises. Neither method returns a list, and the browser context is
  untouched.
\<close>

theorem decode_failure_is_raised:
  "(fs rt (pathlib rt har_file_path) = Some (File content)
      \<and> json_load rt content = Inl (JSONDecodeError msg)
      \<longrightarrow> load_cookies_from_har rt add_cookies ctx har_file_path filter_domains
            = \<lparr> outcome = Inl (JSONDecodeError msg), jar = ctx,
                logs = [(ERROR, CannotParseHar har_file_path)] \<rparr>)
   \<and> (fs rt (pathlib rt har_file_path) = Some (File content)
      \<and> json_load rt content = Inl e \<and> \<not> is_JSONDecodeError e
      \<longrightarrow> load_cookies_from_har rt add_cookies ctx har_file_path filter_domains
            = \<lparr> outcome = Inl e, jar = ctx, logs = [] \<rparr>)
   \<and> (fs rt har_file_path = Some (File content') \<and> json_load rt content' = Inl e'
      \<longrightarrow> extract_urls_from_har rt har_file_path filter_domains status_filter = Inl e')"
  by (simp add: load_cookies_from_har_def extract_urls_from_har_def Let_def open_file)

theorem decode_failure_witness:
  "fs sample_rt (pathlib sample_rt ''broken.har'') = Some (File ''{'')
   \<and> json_load sample_rt ''{'' = Inl (JSONDecodeError ''Expecting property name'')
   \<and> load_cookies_from_har sample_rt add_to_jar [] ''broken.har'' None
       = \<lparr> outcome = Inl (JSONDecodeError ''Expecting property name''), jar = [],
           logs = [(ERROR, CannotParseHar ''broken.har'')] \<rparr>
   \<and> fs sample_rt (pathlib sample_rt ''latin1.har'') = Some (File ''LATIN1'')
   \<and> json_load sample_rt ''LATIN1'' = Inl UnicodeDecodeError
   \<and> \<not> is_JSONDecodeError UnicodeDecodeError
   \<and> load_cookies_from_har sample_rt add_to_jar [] ''latin1.har'' None
       = \<lparr> outcome = Inl UnicodeDecodeError, jar = [], logs = [] \<rparr>
   \<and> fs sample_rt ''broken.har'' = Some (File ''{'')
   \<and> extract_urls_from_har sample_rt ''broken.har'' None None
       = Inl (JSONDecodeError ''Expecting property name'')
   \<and> fs sample_rt ''latin1.har'' = Some (File ''LATIN1'')
   \<and> extract_urls_from_har sample_rt ''latin1.har'' None None = Inl UnicodeDecodeError"
proof -
  have path: "pathlib sample_rt ''broken.har'' = ''broken.har''"
    "pathlib sample_rt ''latin1.har'' = ''latin1.har''"
    by (simp_all add: sample_rt_def posix_path_def)
  have there: "fs sample_rt ''broken.har'' = Some (File ''{'')"
    "fs sample_rt ''latin1.har'' = Some (File ''LATIN1'')"
    by (simp_all add: sample_rt_def sample_files_def)
  have bad: "json_load sample_rt ''{'' = Inl (JSONDecodeError ''Expecting property name'')"
    "json_load sample_rt ''LATIN1'' = Inl UnicodeDecodeError"
    by (simp_all add: sample_rt_def)
  note t = decode_failure_is_raised [where rt = sample_rt and filter_domains = None]
  have logged: "load_cookies_from_har sample_rt add_to_jar [] ''broken.har'' None
       = \<lparr> outcome = Inl (JSONDecodeError ''Expecting property name''), jar = [],
           logs = [(ERROR, CannotParseHar ''broken.har'')] \<rparr>"
    using there(1) bad(1)
      t [where har_file_path = "''broken.har''" and content = "''{''"
        and msg = "''Expecting property name''", THEN conjunct1]
    by (simp add: path)
  have silent: "load_cookies_from_har sample_rt add_to_jar [] ''latin1.har'' None
       = \<lparr> outcome = Inl UnicodeDecodeError, jar = [], logs = [] \<rparr>"
    using there(2) bad(2)
      t [where har_file_path = "''latin1.har''" and content = "''LATIN1''"
        and e = UnicodeDecodeError, THEN conjunct2, THEN conjunct1]
    by (simp add: path)
  have direct: "extract_urls_from_har sample_rt ''broken.har'' None None
       = Inl (JSONDecodeError ''Expecting property name'')"
    using there(1) bad(1)
      t [where har_file_path = "''broken.har''" and content' = "''{''"
        and e' = "JSONDecodeError ''Expecting property name''" and status_filter = None,
        THEN conjunct2, THEN conjunct2]
    by simp
  have direct': "extract_urls_from_har sample_rt ''latin1.har'' None None = Inl UnicodeDecodeError"
    using there(2) bad(2)
      t [where har_file_path = "''latin1.har''" and content' = "''LATIN1''"
        and e' = UnicodeDecodeError and status_filter = None,
        THEN conjunct2, THEN conjunct2]
    by simp
  show ?thesis
    using path there bad logged silent direct direct' by simp
qed

text \<open>\<^verbatim>\<open>latin1.har\<close> exists and its bytes are not UTF-8, so that it cannot be decoded. The
  exception is a \<^verbatim>\<open>UnicodeDecodeError\<close>, and cookie extraction raises it without a log
  record.\<close>

theorem undecodable_bytes_counterexample:
  "fs sample_rt (pathlib sample_rt ''latin1.har'') = Some (File ''LATIN1'')
   \<and> json_load sample_rt ''LATIN1'' = Inl UnicodeDecodeError
   \<and> load_cookies_from_har sample_rt add_to_jar [] ''latin1.har'' None
       = \<lparr> outcome = Inl UnicodeDecodeError, jar = [], logs = [] \<rparr>"
proof -
  have path: "pathlib sample_rt ''latin1.har'' = ''latin1.har''"
    by (simp add: sample_rt_def posix_path_def)
  have there: "fs sample_rt ''latin1.har'' = Some (File ''LATIN1'')"
    by (simp add: sample_rt_def sample_files_def)
  have bad: "json_load sample_rt ''LATIN1'' = Inl UnicodeDecodeError"
    by (simp add: sample_rt_def)
  show ?thesis
    using there bad
    by (simp add: load_cookies_from_har_def Let_def path open_file [OF there])
qed

section \<open>Facts about the sample files\<close>

lemma sample_path: "pathlib sample_rt ''session.har'' = ''session.har''"
  by (simp add: sample_rt_def posix_path_def)

lemma sample_file: "fs sample_rt ''session.har'' = Some (File ''SESSION'')"
  by (simp add: sample_rt_def sample_files_def)

lemma sample_path_file: "fs sample_rt (pathlib sample_rt ''session.har'') = Some (File ''SESSION'')"
  by (simp add: sample_path sample_file)

lemma sample_decodes: "json_load sample_rt ''SESSION'' = Inr session_har"
  by (simp add: sample_rt_def)

lemma sample_entries: "har_entries session_har = Inr session_entries"
  by (simp add: har_entries_def session_har_def sub_get_def)

lemma sample_entries_ok: "list_all (entry_ok sample_rt None None) session_entries"
  by (simp add: entry_ok_def returns_def sub_get_def request_url_def domain_filter_def
        session_entries_def har_entry_def)

lemma sample_entries_ok_filtered:
  "list_all (entry_ok sample_rt (Some [''example.com'']) (Some [200, 404])) session_entries"
  by (simp add: entry_ok_def returns_def sub_get_def request_url_def domain_filter_def
        session_entries_def har_entry_def sample_rt_def netloc_defs)

lemma bracket_file:
  "fs sample_rt ''bracket.har'' = Some (File ''BRACKET'')"
  "json_load sample_rt ''BRACKET'' = Inr bracket_har"
  "har_entries bracket_har = Inr bracket_entries"
  by (simp_all add: sample_rt_def sample_files_def har_entries_def bracket_har_def sub_get_def)

lemma bracket_entries_ok:
  "list_all (entry_ok sample_rt (Some [''example.com'']) (Some [200])) bracket_entries"
  "\<not> list_all (entry_ok sample_rt (Some [''example.com'']) None) bracket_entries"
  by (simp_all add: entry_ok_def returns_def sub_get_def request_url_def response_status_def
        domain_filter_def status_admitted_def py_in_def
        bracket_entries_def har_entry_def sample_rt_def netloc_defs)

section \<open>URL extraction\<close>

text \<open>
  Claim C4, as amended. \<^verbatim>\<open>extract_urls_from_har\<close> returns a list exactly when the file
  exists and decodes and the loop gets through every entry without an exception (an URL
  that \<^verbatim>\<open>urlparse\<close> refuses does no harm on an entry that the status filter skips).
  The list is then exactly the request URLs (default: the empty string) of the entries that
  pass both filters, in entry order, each entry counting once, with no deduplication. The
  status (default 0) passes when the status filter is None or empty, or when it equals a
  member of the filter; the claim's "is a member of the supplied filter" fails for the
  empty list.
\<close>

theorem extract_urls_postcondition:
  "(extract_urls_from_har rt har_file_path filter_domains status_filter = Inr urls) =
     (\<exists>content har_data entries.
        fs rt har_file_path = Some (File content)
        \<and> json_load rt content = Inr har_data
        \<and> har_entries har_data = Inr entries
        \<and> list_all (entry_ok rt filter_domains status_filter) entries
        \<and> urls = map request_url
                   (filter (\<lambda>entry. status_admitted status_filter (response_status entry)
                                     \<and> domain_admitted rt filter_domains (request_url entry))
                      entries))"
proof -
  have "(\<lambda>entry. status_admitted status_filter (response_status entry)
                 \<and> domain_admitted rt filter_domains (request_url entry))
          = admitted rt filter_domains status_filter"
    by (rule ext) (simp add: admitted_def)
  then show ?thesis
    by (simp add: extract_urls_returns)
qed

theorem extract_urls_postcondition_witness:
  "fs sample_rt ''session.har'' = Some (File ''SESSION'')
   \<and> json_load sample_rt ''SESSION'' = Inr session_har
   \<and> har_entries session_har = Inr session_entries
   \<and> list_all (entry_ok sample_rt (Some [''example.com'']) (Some [200, 404])) session_entries
   \<and> extract_urls_from_har sample_rt ''session.har'' (Some [''example.com'']) (Some [200, 404]) =
       Inr [JStr ''https://a.example.com/login'', JStr ''https://a.example.com/login'']
   \<and> fs sample_rt ''bracket.har'' = Some (File ''BRACKET'')
   \<and> json_load sample_rt ''BRACKET'' = Inr bracket_har
   \<and> har_entries bracket_har = Inr bracket_entries
   \<and> list_all (entry_ok sample_rt (Some [''example.com'']) (Some [200])) bracket_entries
   \<and> extract_urls_from_har sample_rt ''bracket.har'' (Some [''example.com'']) (Some [200]) =
       Inr [JStr ''https://a.example.com/login'']
   \<and> \<not> list_all (entry_ok sample_rt (Some [''example.com'']) None) bracket_entries
   \<and> (\<forall>urls. extract_urls_from_har sample_rt ''bracket.har'' (Some [''example.com'']) None
              \<noteq> Inr urls)"
proof -
  let ?fd = "Some [''example.com'']"
  let ?kept = "\<lambda>sf es. map request_url
                 (filter (\<lambda>entry. status_admitted sf (response_status entry)
                                   \<and> domain_admitted sample_rt ?fd (request_url entry)) es)"
  have session_kept: "?kept (Some [200, 404]) session_entries
      = [JStr ''https://a.example.com/login'', JStr ''https://a.example.com/login'']"
    by (simp add: session_entries_def har_entry_def request_url_def response_status_def sub_get_def
        status_admitted_def domain_admitted_def domain_filter_def py_in_def sample_rt_def netloc_defs)
  have bracket_kept: "?kept (Some [200]) bracket_entries = [JStr ''https://a.example.com/login'']"
    by (simp add: bracket_entries_def har_entry_def request_url_def response_status_def sub_get_def
        status_admitted_def domain_admitted_def domain_filter_def py_in_def sample_rt_def netloc_defs)
  have "extract_urls_from_har sample_rt ''session.har'' ?fd (Some [200, 404])
      = Inr (?kept (Some [200, 404]) session_entries)"
    using extract_urls_postcondition [where rt = sample_rt and har_file_path = "''session.har''"
        and filter_domains = ?fd and status_filter = "Some [200, 404]"
        and urls = "?kept (Some [200, 404]) session_entries"]
      sample_file sample_decodes sample_entries sample_entries_ok_filtered
    by blast
  then have session: "extract_urls_from_har sample_rt ''session.har'' ?fd (Some [200, 404])
      = Inr [JStr ''https://a.example.com/login'', JStr ''https://a.example.com/login'']"
    by (simp only: session_kept)
  have "extract_urls_from_har sample_rt ''bracket.har'' ?fd (Some [200])
      = Inr (?kept (Some [200]) bracket_entries)"
    using extract_urls_postcondition [where rt = sample_rt and har_file_path = "''bracket.har''"
        and filter_domains = ?fd and status_filter = "Some [200]"
        and urls = "?kept (Some [200]) bracket_entries"]
      bracket_file bracket_entries_ok(1)
    by blast
  then have skipped: "extract_urls_from_har sample_rt ''bracket.har'' ?fd (Some [200])
      = Inr [JStr ''https://a.example.com/login'']"
    by (simp only: bracket_kept)
  have raises: "extract_urls_from_har sample_rt ''bracket.har'' ?fd None \<noteq> Inr urls" for urls
  proof
    assume "extract_urls_from_har sample_rt ''bracket.har'' ?fd None = Inr urls"
    then obtain content har_data entries where
        "fs sample_rt ''bracket.har'' = Some (File content)"
        "json_load sample_rt content = Inr har_data"
        "har_entries har_data = Inr entries"
        "list_all (entry_ok sample_rt ?fd None) entries"
      using extract_urls_postcondition [where rt = sample_rt and har_file_path = "''bracket.har''"
          and filter_domains = ?fd and status_filter = None and urls = urls]
      by blast
    then have "list_all (entry_ok sample_rt ?fd None) bracket_entries"
      using bracket_file by simp
    then show False
      using bracket_entries_ok(2) by simp
  qed
  show ?thesis
    using sample_file sample_decodes sample_entries sample_entries_ok_filtered session
      bracket_file bracket_entries_ok skipped raises
    by (intro conjI allI)
qed

text \<open>With the empty list as status filter no status is a member of the filter, and yet
  every URL of \<^verbatim>\<open>session.har\<close> is returned.\<close>

theorem empty_status_filter_counterexample:
  "har_entries session_har = Inr session_entries
   \<and> filter (\<lambda>entry. py_in (response_status entry) []) session_entries = []
   \<and> extract_urls_from_har sample_rt ''session.har'' None (Some []) =
       Inr [JStr ''https://a.example.com/login'', JStr ''https://a.example.com/login'',
            JStr ''https://b.other.com/x'', JStr ''https://a.example.com:8443/api'']"
  by (simp add: sample_entries py_in_def extract_urls_from_har_def open_file [OF sample_file]
        sample_decodes session_entries_def har_entry_def url_entry_def sub_get_def domain_filter_def)

text \<open>
  Claim C9. Without a status filter \<^verbatim>\<open>HarLoader.extract_urls_from_har\<close> lets every
  status through: its result is the URLs of the entries that pass the domain filter. The
  wrapper \<^verbatim>\<open>HarExtension.extract_urls_from_har\<close> called without a status filter uses
  its default \<^verbatim>\<open>[200]\<close> and returns, of those, the URLs of the entries whose status
  equals 200. (With no status filter the domain filter is applied to every entry, so the
  hypothesis on the entries says that the loop of the first call raises nothing.)
\<close>

theorem status_filter_defaults:
  assumes "fs rt har_file_path = Some (File content)"
    and "json_load rt content = Inr har_data"
    and "har_entries har_data = Inr entries"
    and "list_all (entry_ok rt filter_domains None) entries"
  shows "extract_urls_from_har rt har_file_path filter_domains None =
           Inr (map request_url
                  (filter (\<lambda>entry. domain_admitted rt filter_domains (request_url entry)) entries))
       \<and> HarExtension_extract_urls_from_har rt har_file_path filter_domains None =
           Inr (map request_url
                  (filter (\<lambda>entry. py_eq_int (response_status entry) 200
                                    \<and> domain_admitted rt filter_domains (request_url entry))
                     entries))"
proof -
  have all: "admitted rt filter_domains None
               = (\<lambda>entry. domain_admitted rt filter_domains (request_url entry))"
    by (rule ext) (simp add: admitted_def status_admitted_def)
  have only200: "admitted rt filter_domains (Some [200])
               = (\<lambda>entry. py_eq_int (response_status entry) 200
                          \<and> domain_admitted rt filter_domains (request_url entry))"
    by (rule ext) (simp add: admitted_def status_admitted_def py_in_def)
  have ok200: "list_all (entry_ok rt filter_domains (Some [200])) entries"
    using assms(4) by (rule entries_ok_any_status)
  show ?thesis
    using extract_urls_closed [OF assms(1-3) assms(4)] extract_urls_closed [OF assms(1-3) ok200]
    by (simp add: HarExtension_extract_urls_from_har_def all only200)
qed

theorem status_filter_defaults_witness:
  "fs sample_rt ''session.har'' = Some (File ''SESSION'')
   \<and> json_load sample_rt ''SESSION'' = Inr session_har
   \<and> har_entries session_har = Inr session_entries
   \<and> list_all (entry_ok sample_rt None None) session_entries
   \<and> extract_urls_from_har sample_rt ''session.har'' None None =
       Inr [JStr ''https://a.example.com/login'', JStr ''https://a.example.com/login'',
            JStr ''https://b.other.com/x'', JStr ''https://a.example.com:8443/api'']
   \<and> HarExtension_extract_urls_from_har sample_rt ''session.har'' None None =
       Inr [JStr ''https://a.example.com/login'', JStr ''https://a.example.com/login'',
            JStr ''https://a.example.com:8443/api'']"
  using sample_file sample_decodes sample_entries sample_entries_ok
    status_filter_defaults [OF sample_file sample_decodes sample_entries sample_entries_ok]
  by (simp add: session_entries_def har_entry_def request_url_def response_status_def sub_get_def
        domain_admitted_def domain_filter_def)

section \<open>Cookie extraction\<close>

text \<open>Whatever holds of every record that \<open>make_cookie_obj\<close> can build holds of every record
  the loops emit.\<close>

lemma expires_is_number_or_None:
  "isinstance_int_float (fst (normalize_expires rt cookie)) \<or> fst (normalize_expires rt cookie) = JNull"
  by (simp add: normalize_expires_def Let_def split: sum.splits)

lemma cookie_loop_invariant:
  assumes "cookie_loop rt cs st = (r, st')"
    and "I st"
    and "\<And>cookie s. I s \<Longrightarrow> I (process_cookie rt cookie s)"
  shows "I st'"
  using assms(1,2)
proof (induction cs arbitrary: st)
  case Nil
  then show ?case by simp
next
  case (Cons c cs)
  show ?case
  proof (cases c)
    case (JObj cookie)
    have "I (process_cookie rt cookie st)"
      using assms(3) Cons.prems(2) by blast
    then show ?thesis
      using Cons.IH [of "process_cookie rt cookie st"] Cons.prems(1) JObj by simp
  qed (use Cons.prems in simp_all)
qed

lemma cookie_entry_invariant:
  assumes "cookie_entry rt fd entry st = (r, st')"
    and "I st"
    and "\<And>cookie s. I s \<Longrightarrow> I (process_cookie rt cookie s)"
  shows "I st'"
proof -
  have loop: "I s'" if "cookie_loop rt cs st = (r', s')" for cs r' s'
    using cookie_loop_invariant [where I = I, OF that assms(2) assms(3)] .
  show ?thesis
    using assms(1,2) loop
    by (auto simp add: cookie_entry_def split: sum.splits bool.splits prod.splits option.splits)
qed

lemma entry_loop_invariant:
  assumes "entry_loop rt fd es st = (r, st')"
    and "I st"
    and "\<And>cookie s. I s \<Longrightarrow> I (process_cookie rt cookie s)"
  shows "I st'"
  using assms(1,2)
proof (induction es arbitrary: st)
  case Nil
  then show ?case by simp
next
  case (Cons entry es)
  obtain r1 st1 where step: "cookie_entry rt fd entry st = (r1, st1)"
    by (cases "cookie_entry rt fd entry st")
  have st1: "I st1"
    using cookie_entry_invariant [where I = I, OF step Cons.prems(2) assms(3)] .
  show ?case
  proof (cases r1)
    case None
    then show ?thesis
      using Cons.IH [OF _ st1] Cons.prems(1) step by simp
  next
    case (Some e)
    then show ?thesis
      using Cons.prems(1) step st1 by simp
  qed
qed

lemma load_cookies_invariant:
  assumes "outcome (load_cookies_from_har rt add_cookies ctx p fd) = Inr cs"
    and "I \<lparr> cookies = [], processed_cookies = {}, logged = [] \<rparr>"
    and "\<And>cookie s. I s \<Longrightarrow> I (process_cookie rt cookie s)"
  shows "\<exists>st. I st \<and> cookies st = cs"
proof -
  obtain es st where run: "entry_loop rt fd es \<lparr> cookies = [], processed_cookies = {}, logged = [] \<rparr>
                    = (None, st)" and cs: "cookies st = cs"
    using load_cookies_returns [OF assms(1)] by blast
  have "I st"
    using entry_loop_invariant [where I = I, OF run assms(2) assms(3)] .
  then show ?thesis
    using cs by blast
qed

lemma load_cookies_emits:
  assumes "outcome (load_cookies_from_har rt add_cookies ctx p fd) = Inr cs"
    and "\<And>cookie. P (make_cookie_obj rt cookie)"
  shows "\<forall>c\<in>set cs. P c"
proof -
  let ?I = "\<lambda>st :: extraction. \<forall>c\<in>set (cookies st). P c"
  have "\<exists>st. ?I st \<and> cookies st = cs"
  proof (rule load_cookies_invariant [where I = ?I, OF assms(1)])
    show "?I \<lparr> cookies = [], processed_cookies = {}, logged = [] \<rparr>"
      by simp
    show "?I (process_cookie rt cookie s)" if "?I s" for cookie s
      using that assms(2) by (simp add: process_cookie_def Let_def)
  qed
  then show ?thesis by blast
qed

subsection \<open>Deduplication by key\<close>

lemma key_of_make_cookie_obj: "key_of rt (make_cookie_obj rt cookie) = cookie_key rt cookie"
  by (simp add: key_of_def make_cookie_obj_def cookie_key_def)

text \<open>A cookie whose key was seen changes nothing and logs nothing; a cookie with a new key
  is appended and its key recorded.\<close>

lemma seen_key_is_dropped:
  "cookie_key rt cookie \<in> processed_cookies st \<Longrightarrow> process_cookie rt cookie st = st"
  by (simp add: process_cookie_def)

lemma new_key_is_emitted:
  "cookie_key rt cookie \<notin> processed_cookies st \<Longrightarrow>
   cookies (process_cookie rt cookie st) = cookies st @ [make_cookie_obj rt cookie]
   \<and> processed_cookies (process_cookie rt cookie st)
       = insert (cookie_key rt cookie) (processed_cookies st)"
  by (simp add: process_cookie_def)

lemma process_cookie_keys_tracked:
  assumes "keys_tracked rt st"
  shows "keys_tracked rt (process_cookie rt cookie st)"
proof (cases "cookie_key rt cookie \<in> processed_cookies st")
  case True
  then show ?thesis
    using assms by (simp add: seen_key_is_dropped)
next
  case False
  then show ?thesis
    using assms new_key_is_emitted [OF False]
    by (auto simp add: keys_tracked_def key_of_make_cookie_obj)
qed

text \<open>No two records of one call have the same key, hence no two have the same name and
  the same domain.\<close>

lemma emitted_keys_distinct:
  assumes "outcome (load_cookies_from_har rt add_cookies ctx p fd) = Inr cs"
  shows "distinct (map (key_of rt) cs)"
proof -
  have "\<exists>st. keys_tracked rt st \<and> cookies st = cs"
  proof (rule load_cookies_invariant [where I = "keys_tracked rt", OF assms])
    show "keys_tracked rt \<lparr> cookies = [], processed_cookies = {}, logged = [] \<rparr>"
      by (simp add: keys_tracked_def)
    show "keys_tracked rt (process_cookie rt cookie s)" if "keys_tracked rt s" for cookie s
      using that by (rule process_cookie_keys_tracked)
  qed
  then show ?thesis
    by (auto simp add: keys_tracked_def)
qed

lemma emitted_pairs_distinct:
  assumes "outcome (load_cookies_from_har rt add_cookies ctx p fd) = Inr cs"
  shows "distinct (map (\<lambda>c. (name c, domain c)) cs)"
proof -
  let ?k = "\<lambda>nd. py_str rt (fst nd) @ ''@'' @ py_str rt (snd nd)"
  have eq: "map ?k (map (\<lambda>c. (name c, domain c)) cs) = map (key_of rt) cs"
    by (simp add: key_of_def)
  have "distinct (map ?k (map (\<lambda>c. (name c, domain c)) cs))"
    unfolding eq by (rule emitted_keys_distinct [OF assms])
  then show ?thesis
    using distinct_map [of ?k "map (\<lambda>c. (name c, domain c)) cs"] by blast
qed

text \<open>A run that raises nothing returns one record for each key among the cookies it
  visits, made from the first cookie with that key, in the order of these first cookies.\<close>

lemma first_by_key_append:
  "first_by_key rt seen (xs @ ys)
     = first_by_key rt seen xs @ first_by_key rt (seen \<union> cookie_key rt ` set xs) ys"
  by (induction xs arbitrary: seen) (simp_all add: insert_absorb)

lemma follows_none: "follows rt [] st st"
  by (simp add: follows_def)

lemma follows_append:
  assumes "follows rt xs st st1" and "follows rt ys st1 st2"
  shows "follows rt (xs @ ys) st st2"
  using assms by (auto simp add: follows_def first_by_key_append)

lemma follows_process_cookie: "follows rt [cookie] st (process_cookie rt cookie st)"
  by (auto simp add: follows_def process_cookie_def Let_def)

lemma cookie_loop_follows:
  assumes "cookie_loop rt cs st = (None, st')"
  shows "follows rt (raw_cookies cs) st st'"
  using assms
proof (induction cs arbitrary: st)
  case Nil
  then show ?case by (simp add: follows_none)
next
  case (Cons c cs)
  show ?case
  proof (cases c)
    case (JObj cookie)
    have "follows rt (raw_cookies cs) (process_cookie rt cookie st) st'"
      using Cons.IH [of "process_cookie rt cookie st"] Cons.prems JObj by simp
    then have "follows rt ([cookie] @ raw_cookies cs) st st'"
      using follows_process_cookie follows_append by blast
    then show ?thesis
      using JObj by simp
  qed (use Cons.prems in simp_all)
qed

lemma cookie_entry_follows:
  assumes "cookie_entry rt fd entry st = (None, st')"
  shows "follows rt (if domain_admitted rt fd (request_url entry) then entry_cookies entry else [])
           st st'"
  using assms cookie_loop_follows [of rt _ st st']
  by (auto simp add: cookie_entry_def domain_admitted_def request_url_def entry_cookies_def
        follows_none
      split: sum.splits bool.splits prod.splits option.splits)

lemma entry_loop_follows:
  assumes "entry_loop rt fd es st = (None, st')"
  shows "follows rt (visited rt fd es) st st'"
  using assms
proof (induction es arbitrary: st)
  case Nil
  then show ?case by (simp add: visited_def follows_none)
next
  case (Cons entry es)
  obtain r1 st1 where step: "cookie_entry rt fd entry st = (r1, st1)"
    by (cases "cookie_entry rt fd entry st")
  have r1: "r1 = None" and rest: "entry_loop rt fd es st1 = (None, st')"
    using Cons.prems step by (auto split: option.splits)
  have one: "follows rt (if domain_admitted rt fd (request_url entry) then entry_cookies entry else [])
           st st1"
    using cookie_entry_follows step r1 by blast
  have "follows rt ((if domain_admitted rt fd (request_url entry) then entry_cookies entry else [])
           @ visited rt fd es) st st'"
    using follows_append [OF one Cons.IH [OF rest]] .
  then show ?case
    by (simp add: visited_def split: if_splits)
qed

lemma load_cookies_closed:
  assumes "fs rt (pathlib rt p) = Some (File content)"
    and "json_load rt content = Inr har_data"
    and "har_entries har_data = Inr es"
    and "outcome (load_cookies_from_har rt add_cookies ctx p fd) = Inr cs"
  shows "cs = map (make_cookie_obj rt) (first_by_key rt {} (visited rt fd es))"
proof -
  let ?init = "\<lparr> cookies = [], processed_cookies = {}, logged = [] \<rparr>"
  obtain r st where run: "entry_loop rt fd es ?init = (r, st)"
    by (cases "entry_loop rt fd es ?init")
  have returned: "r = None \<and> cookies st = cs"
    using assms(4) run unfolding load_cookies_on_entries [OF assms(1-3)]
    by (auto split: option.splits prod.splits if_splits)
  then have "follows rt (visited rt fd es) ?init st"
    using entry_loop_follows run by blast
  then show ?thesis
    using returned by (simp add: follows_def)
qed

lemma first_by_key_keys:
  "cookie_key rt ` set (first_by_key rt seen xs) = cookie_key rt ` set xs - seen"
  by (induction xs arbitrary: seen) auto

lemma first_by_key_distinct: "distinct (map (cookie_key rt) (first_by_key rt seen xs))"
proof (induction xs arbitrary: seen)
  case Nil
  then show ?case by simp
next
  case (Cons x xs)
  have "cookie_key rt x \<notin> cookie_key rt ` set (first_by_key rt (insert (cookie_key rt x) seen) xs)"
    by (simp add: first_by_key_keys)
  then show ?case
    using Cons.IH by simp
qed

lemma first_by_key_first:
  assumes "c \<in> set (first_by_key rt seen xs)"
  shows "\<exists>pre post. xs = pre @ c # post \<and> cookie_key rt c \<notin> seen
           \<and> cookie_key rt c \<notin> cookie_key rt ` set pre"
  using assms
proof (induction xs arbitrary: seen)
  case Nil
  then show ?case by simp
next
  case (Cons x xs)
  show ?case
  proof (cases "cookie_key rt x \<in> seen")
    case True
    then have "c \<in> set (first_by_key rt seen xs)"
      using Cons.prems by simp
    then obtain pre post where d: "xs = pre @ c # post" "cookie_key rt c \<notin> seen"
        "cookie_key rt c \<notin> cookie_key rt ` set pre"
      using Cons.IH by blast
    have "x # xs = (x # pre) @ c # post" "cookie_key rt c \<notin> cookie_key rt ` set (x # pre)"
      using d True by auto
    then show ?thesis
      using d(2) by blast
  next
    case False
    show ?thesis
    proof (cases "c = x")
      case True
      have "x # xs = [] @ c # xs" "cookie_key rt c \<notin> cookie_key rt ` set []"
        using True by simp_all
      then show ?thesis
        using False True by blast
    next
      case differs: False
      then have "c \<in> set (first_by_key rt (insert (cookie_key rt x) seen) xs)"
        using Cons.prems False by simp
      then obtain pre post where d: "xs = pre @ c # post"
          "cookie_key rt c \<notin> insert (cookie_key rt x) seen"
          "cookie_key rt c \<notin> cookie_key rt ` set pre"
        using Cons.IH by blast
      have "x # xs = (x # pre) @ c # post" "cookie_key rt c \<notin> cookie_key rt ` set (x # pre)"
        "cookie_key rt c \<notin> seen"
        using d by auto
      then show ?thesis
        by blast
    qed
  qed
qed

subsection \<open>Runs on the sample files\<close>

lemma sample_loop:
  "entry_loop sample_rt None session_entries \<lparr> cookies = [], processed_cookies = {}, logged = [] \<rparr>
   = (None,
      \<lparr> cookies = [make_cookie_obj sample_rt cookie_sid, make_cookie_obj sample_rt cookie_theme,
                   make_cookie_obj sample_rt cookie_track, make_cookie_obj sample_rt cookie_api],
        processed_cookies = {''api@a.example.com'', ''track@b.other.com'', ''theme@a.example.com'',
                             ''sid@a.example.com''},
        logged = [(WARNING, InvalidExpires (JStr ''theme''))] \<rparr>)"
  by (simp add: sample_defs cookie_defs sub_get_def domain_filter_def)

lemma sample_loop_filtered:
  "entry_loop sample_rt (Some [''a.example.com'']) session_entries
     \<lparr> cookies = [], processed_cookies = {}, logged = [] \<rparr>
   = (None,
      \<lparr> cookies = [make_cookie_obj sample_rt cookie_sid, make_cookie_obj sample_rt cookie_theme],
        processed_cookies = {''theme@a.example.com'', ''sid@a.example.com''},
        logged = [(WARNING, InvalidExpires (JStr ''theme''))] \<rparr>)"
  by (simp add: sample_defs cookie_defs sub_get_def domain_filter_def netloc_defs)

lemma sample_cookies_loaded:
  "load_cookies_from_har sample_rt add_to_jar ctx ''session.har'' None =
     \<lparr> outcome = Inr [make_cookie_obj sample_rt cookie_sid, make_cookie_obj sample_rt cookie_theme,
                      make_cookie_obj sample_rt cookie_track, make_cookie_obj sample_rt cookie_api],
       jar = ctx @ [make_cookie_obj sample_rt cookie_sid, make_cookie_obj sample_rt cookie_theme,
              make_cookie_obj sample_rt cookie_track, make_cookie_obj sample_rt cookie_api],
       logs = [(WARNING, InvalidExpires (JStr ''theme'')), (INFO, LoadedCookies 4)] \<rparr>"
  unfolding load_cookies_on_entries [OF sample_path_file sample_decodes sample_entries] sample_loop
  by (simp add: add_to_jar_def)

lemma sample_expires:
  "map expires [make_cookie_obj sample_rt cookie_sid, make_cookie_obj sample_rt cookie_theme,
                make_cookie_obj sample_rt cookie_track, make_cookie_obj sample_rt cookie_api]
     = [JFloat (Finite 1700000000), JInt (- 1), JNull, JInt 1800000000]"
  by (simp add: make_cookie_obj_def normalize_expires_def get_or_def sample_defs)

lemma sample_names:
  "map name [make_cookie_obj sample_rt cookie_sid, make_cookie_obj sample_rt cookie_theme,
             make_cookie_obj sample_rt cookie_track, make_cookie_obj sample_rt cookie_api]
     = [JStr ''sid'', JStr ''theme'', JStr ''track'', JStr ''api'']"
  by (simp add: make_cookie_obj_def get_or_def sample_defs)

lemma odd_file:
  "fs sample_rt (pathlib sample_rt ''odd.har'') = Some (File ''ODD'')"
  "json_load sample_rt ''ODD'' = Inr odd_har"
  "har_entries odd_har
     = Inr [har_entry ''https://a.example.com/'' [JObj cookie_theme, JStr ''sid=abc''] 200]"
  by (simp_all add: har_entries_def sample_defs sample_files_def posix_path_def sub_get_def)

lemma odd_loop:
  "entry_loop sample_rt None
     [har_entry ''https://a.example.com/'' [JObj cookie_theme, JStr ''sid=abc''] 200]
     \<lparr> cookies = [], processed_cookies = {}, logged = [] \<rparr>
   = (Some AttributeError,
      \<lparr> cookies = [make_cookie_obj sample_rt cookie_theme],
        processed_cookies = {''theme@a.example.com''},
        logged = [(WARNING, InvalidExpires (JStr ''theme''))] \<rparr>)"
  by (simp add: sample_defs cookie_defs sub_get_def domain_filter_def)

lemma clash_file:
  "fs sample_rt (pathlib sample_rt ''clash.har'') = Some (File ''CLASH'')"
  "json_load sample_rt ''CLASH'' = Inr clash_har"
  "har_entries clash_har
     = Inr [har_entry ''https://c/''
              [JObj clash_first, JObj clash_second, JObj clash_unnamed, JObj clash_None] 200]"
  by (simp_all add: har_entries_def sample_rt_def clash_har_def sample_files_def posix_path_def
        sub_get_def)

section \<open>The domain filter\<close>

text \<open>
  In cookie extraction and in URL extraction alike, the domain of an entry is the netloc of
  its request URL as \<^verbatim>\<open>urlparse\<close> gives it. With a filter \<open>ds\<close>, the entry is kept if
  and only if \<open>ds\<close> is empty or the netloc ends with a member of \<open>ds\<close>, compared character
  by character; a kept entry is treated as if there were no filter, another one is skipped.
\<close>

lemma domain_filter_on_netloc:
  assumes "sub_get entry ''request'' ''url'' (JStr []) = Inr (JStr u)"
    and "sub_get entry ''response'' ''status'' (JInt 0) = Inr status"
    and "netloc rt u = Inr nl"
  shows "cookie_entry rt (Some ds) entry st =
           (if ds = [] \<or> (\<exists>d\<in>set ds. suffix d nl) then cookie_entry rt None entry st
            else (None, st))"
    and "url_entry rt (Some ds) status_filter entry urls =
           (if ds = [] \<or> (\<exists>d\<in>set ds. suffix d nl) then url_entry rt None status_filter entry urls
            else Inr urls)"
proof -
  have df: "domain_filter rt (Some ds) (JStr u) = Inr (ds = [] \<or> (\<exists>d\<in>set ds. suffix d nl))"
    using assms(3) by (cases ds) (simp_all add: domain_filter_def list_ex_iff)
  show "cookie_entry rt (Some ds) entry st =
           (if ds = [] \<or> (\<exists>d\<in>set ds. suffix d nl) then cookie_entry rt None entry st
            else (None, st))"
    using assms(1) df by (simp add: cookie_entry_def domain_filter_def)
  show "url_entry rt (Some ds) status_filter entry urls =
           (if ds = [] \<or> (\<exists>d\<in>set ds. suffix d nl) then url_entry rt None status_filter entry urls
            else Inr urls)"
    using assms(1,2) df by (simp add: url_entry_def domain_filter_def)
qed

text \<open>
  Claim C3, at a failing input. The fourth entry of \<^verbatim>\<open>session.har\<close> is a request to
  \<^verbatim>\<open>https://a.example.com:8443/api\<close> that sends the cookie \<^verbatim>\<open>api\<close> of the domain
  \<^verbatim>\<open>a.example.com\<close>. The filter holds the domain name \<^verbatim>\<open>a.example.com\<close>, which
  is the host of that URL. The lines 60 and 145 compare with the netloc, which is
  \<^verbatim>\<open>a.example.com:8443\<close> and does not end with the name: the URL is not returned and
  the cookie is not loaded, while those of the first two entries, whose URLs name no port,
  are.
\<close>

theorem port_keeps_domain_out:
  "request_url (session_entries ! 3) = JStr ''https://a.example.com:8443/api''
   \<and> entry_cookies (session_entries ! 3) = [cookie_api]
   \<and> get_or cookie_api ''domain'' JNull = JStr ''a.example.com''
   \<and> netloc sample_rt ''https://a.example.com:8443/api'' = Inr ''a.example.com:8443''
   \<and> \<not> suffix ''a.example.com'' ''a.example.com:8443''
   \<and> extract_urls_from_har sample_rt ''session.har'' (Some [''a.example.com'']) None =
       Inr [JStr ''https://a.example.com/login'', JStr ''https://a.example.com/login'']
   \<and> map_sum id (map name)
        (outcome (load_cookies_from_har sample_rt add_to_jar [] ''session.har'' (Some [''a.example.com''])))
       = Inr [JStr ''sid'', JStr ''theme'']
   \<and> map_sum id (map name)
        (outcome (load_cookies_from_har sample_rt add_to_jar [] ''session.har'' None))
       = Inr [JStr ''sid'', JStr ''theme'', JStr ''track'', JStr ''api'']"
proof -
  have a: "request_url (session_entries ! 3) = JStr ''https://a.example.com:8443/api''"
    by (simp add: session_entries_def har_entry_def request_url_def sub_get_def)
  have b: "entry_cookies (session_entries ! 3) = [cookie_api]"
    by (simp add: session_entries_def har_entry_def entry_cookies_def sub_get_def)
  have c: "get_or cookie_api ''domain'' JNull = JStr ''a.example.com''"
    by (simp add: get_or_def cookie_api_def)
  have d: "netloc sample_rt ''https://a.example.com:8443/api'' = Inr ''a.example.com:8443''"
    by (simp add: sample_rt_def netloc_defs)
  have e: "\<not> suffix ''a.example.com'' ''a.example.com:8443''"
    by (simp add: suffix_to_prefix)
  have f: "extract_urls_from_har sample_rt ''session.har'' (Some [''a.example.com'']) None =
       Inr [JStr ''https://a.example.com/login'', JStr ''https://a.example.com/login'']"
  proof -
    have "url_loop sample_rt (Some [''a.example.com'']) None session_entries [] =
       Inr [JStr ''https://a.example.com/login'', JStr ''https://a.example.com/login'']"
      by (simp add: session_entries_def har_entry_def url_entry_def sub_get_def domain_filter_def
          sample_rt_def netloc_defs)
    then show ?thesis
      by (simp add: extract_urls_from_har_def open_file [OF sample_file] sample_decodes
          sample_entries)
  qed
  have g: "map_sum id (map name)
        (outcome (load_cookies_from_har sample_rt add_to_jar [] ''session.har'' (Some [''a.example.com''])))
       = Inr [JStr ''sid'', JStr ''theme'']"
    unfolding load_cookies_on_entries [OF sample_path_file sample_decodes sample_entries]
      sample_loop_filtered
    by (simp add: add_to_jar_def make_cookie_obj_def get_or_def cookie_sid_def cookie_theme_def)
  have h: "map_sum id (map name)
        (outcome (load_cookies_from_har sample_rt add_to_jar [] ''session.har'' None))
       = Inr [JStr ''sid'', JStr ''theme'', JStr ''track'', JStr ''api'']"
    using sample_names by (simp add: sample_cookies_loaded)
  show ?thesis
    by (intro conjI a b c d e f g h)
qed

section \<open>The expires field\<close>

text \<open>
  The \<^verbatim>\<open>expires\<close> of a record is computed from the raw field as follows: absent, it is
  -1; a str that \<^verbatim>\<open>float\<close> accepts, it is that float (so 1700000000.0 for the text
  1700000000); a str that \<^verbatim>\<open>float\<close> rejects, or a list or a dict, it is -1 and one
  warning naming the cookie is logged; a number, it is kept; null, it is kept as None and
  nothing is logged. Hence the \<^verbatim>\<open>expires\<close> of every record that cookie extraction
  returns is a number (an int or a float, which in Python includes a bool) or None.
\<close>

lemma expires_cases:
  "(map_of cookie ''expires'' = None
      \<longrightarrow> normalize_expires rt cookie = (JInt (- 1), []))
   \<and> (map_of cookie ''expires'' = Some (JStr s) \<and> float_str rt s = Some f
      \<longrightarrow> normalize_expires rt cookie = (JFloat f, []))
   \<and> (map_of cookie ''expires'' = Some (JStr s) \<and> float_str rt s = None
      \<longrightarrow> normalize_expires rt cookie
            = (JInt (- 1), [(WARNING, InvalidExpires (get_or cookie ''name'' JNull))]))
   \<and> (map_of cookie ''expires'' = Some v \<and> ((\<exists>xs. v = JList xs) \<or> (\<exists>kvs. v = JObj kvs))
      \<longrightarrow> normalize_expires rt cookie
            = (JInt (- 1), [(WARNING, InvalidExpires (get_or cookie ''name'' JNull))]))
   \<and> (map_of cookie ''expires'' = Some v \<and> isinstance_int_float v
      \<longrightarrow> normalize_expires rt cookie = (v, []))
   \<and> (map_of cookie ''expires'' = Some JNull
      \<longrightarrow> normalize_expires rt cookie = (JNull, []))"
  by (auto simp add: normalize_expires_def get_or_def)

lemma emitted_expires:
  assumes "outcome (load_cookies_from_har rt add_cookies ctx har_file_path filter_domains) = Inr cs"
  shows "\<forall>c\<in>set cs. (\<exists>raw. c = make_cookie_obj rt raw)
                      \<and> (isinstance_int_float (expires c) \<or> expires c = JNull)"
proof (rule load_cookies_emits [OF assms])
  fix raw
  have "expires (make_cookie_obj rt raw) = fst (normalize_expires rt raw)"
    by (simp add: make_cookie_obj_def)
  then show "(\<exists>raw'. make_cookie_obj rt raw = make_cookie_obj rt raw')
      \<and> (isinstance_int_float (expires (make_cookie_obj rt raw))
          \<or> expires (make_cookie_obj rt raw) = JNull)"
    using expires_is_number_or_None [of rt raw] by auto
qed

text \<open>
  Claim C1, at a failing input. The cookie \<^verbatim>\<open>track\<close> of \<^verbatim>\<open>session.har\<close> has
  \<^verbatim>\<open>"expires": null\<close>. The field is present and no float can be made of it, yet the
  test of line 76 leaves it alone: the record that is returned has None, not a number,
  and no warning names the cookie (the one warning of the run is for the cookie
  \<^verbatim>\<open>theme\<close>, whose text is not a number).
\<close>

theorem null_expires_is_not_a_number:
  "map_of cookie_track ''expires'' = Some JNull
   \<and> normalize_expires sample_rt cookie_track = (JNull, [])
   \<and> \<not> isinstance_int_float JNull
   \<and> map_sum id (map name)
        (outcome (load_cookies_from_har sample_rt add_to_jar [] ''session.har'' None))
       = Inr [JStr ''sid'', JStr ''theme'', JStr ''track'', JStr ''api'']
   \<and> map_sum id (map expires)
        (outcome (load_cookies_from_har sample_rt add_to_jar [] ''session.har'' None))
       = Inr [JFloat (Finite 1700000000), JInt (- 1), JNull, JInt 1800000000]
   \<and> logs (load_cookies_from_har sample_rt add_to_jar [] ''session.har'' None)
       = [(WARNING, InvalidExpires (JStr ''theme'')), (INFO, LoadedCookies 4)]"
  using sample_expires sample_names
  by (simp add: sample_cookies_loaded cookie_track_def normalize_expires_def get_or_def)

section \<open>The deduplication key\<close>

text \<open>
  Claim C2, at a failing input. The four cookies of \<^verbatim>\<open>clash.har\<close> have four distinct
  (name, domain) pairs. Line 66 gives the first two the key \<^verbatim>\<open>a@b@c\<close> and the last
  two the key \<^verbatim>\<open>None@a.example.com\<close>, so the second and the fourth are dropped as
  duplicates. (What holds in general is proved above: the records are those of the first
  cookie for each key, \<open>load_cookies_closed\<close>, so that no two records have the same name and
  domain, \<open>emitted_pairs_distinct\<close>.)
\<close>

theorem distinct_pairs_with_one_key:
  "har_entries clash_har
     = Inr [har_entry ''https://c/''
              [JObj clash_first, JObj clash_second, JObj clash_unnamed, JObj clash_None] 200]
   \<and> map (\<lambda>cookie. (get_or cookie ''name'' JNull, get_or cookie ''domain'' JNull))
         [clash_first, clash_second, clash_unnamed, clash_None]
       = [(JStr ''a'', JStr ''b@c''), (JStr ''a@b'', JStr ''c''),
          (JNull, JStr ''a.example.com''), (JStr ''None'', JStr ''a.example.com'')]
   \<and> map (cookie_key sample_rt) [clash_first, clash_second, clash_unnamed, clash_None]
       = [''a@b@c'', ''a@b@c'', ''None@a.example.com'', ''None@a.example.com'']
   \<and> outcome (load_cookies_from_har sample_rt add_to_jar [] ''clash.har'' None)
       = Inr [make_cookie_obj sample_rt clash_first, make_cookie_obj sample_rt clash_unnamed]
   \<and> map (\<lambda>c. (name c, domain c))
         [make_cookie_obj sample_rt clash_first, make_cookie_obj sample_rt clash_unnamed]
       = [(JStr ''a'', JStr ''b@c''), (JNull, JStr ''a.example.com'')]"
proof -
  have pairs: "map (\<lambda>cookie. (get_or cookie ''name'' JNull, get_or cookie ''domain'' JNull))
         [clash_first, clash_second, clash_unnamed, clash_None]
       = [(JStr ''a'', JStr ''b@c''), (JStr ''a@b'', JStr ''c''),
          (JNull, JStr ''a.example.com''), (JStr ''None'', JStr ''a.example.com'')]"
    by (simp add: get_or_def sample_defs)
  have keys: "map (cookie_key sample_rt) [clash_first, clash_second, clash_unnamed, clash_None]
       = [''a@b@c'', ''a@b@c'', ''None@a.example.com'', ''None@a.example.com'']"
    by (simp add: cookie_key_def get_or_def sample_defs)
  have run: "outcome (load_cookies_from_har sample_rt add_to_jar [] ''clash.har'' None)
       = Inr [make_cookie_obj sample_rt clash_first, make_cookie_obj sample_rt clash_unnamed]"
    unfolding load_cookies_on_entries [OF clash_file]
    by (simp add: sample_defs cookie_defs sub_get_def domain_filter_def add_to_jar_def)
  have kept: "map (\<lambda>c. (name c, domain c))
         [make_cookie_obj sample_rt clash_first, make_cookie_obj sample_rt clash_unnamed]
       = [(JStr ''a'', JStr ''b@c''), (JNull, JStr ''a.example.com'')]"
    by (simp add: make_cookie_obj_def get_or_def sample_defs)
  show ?thesis
    by (intro conjI clash_file(3) pairs keys run kept)
qed

section \<open>Empty filters\<close>

text \<open>
  Claim C10. An empty list as domain filter or as status filter behaves as no filter at
  all, in cookie extraction and in URL extraction: the calls are equal, whatever they do.
  With empty filters no entry is excluded: URL extraction returns the URL of every entry of
  a document it reads without an exception, and the list that cookie extraction returns is
  made of the cookies of all entries (one record for the first cookie with each key).
\<close>

theorem empty_filter_is_no_filter:
  "load_cookies_from_har rt add_cookies ctx har_file_path (Some [])
     = load_cookies_from_har rt add_cookies ctx har_file_path None
   \<and> extract_urls_from_har rt har_file_path (Some []) status_filter
     = extract_urls_from_har rt har_file_path None status_filter
   \<and> extract_urls_from_har rt har_file_path filter_domains (Some [])
     = extract_urls_from_har rt har_file_path filter_domains None
   \<and> (fs rt har_file_path = Some (File content) \<and> json_load rt content = Inr har_data
        \<and> har_entries har_data = Inr entries \<and> list_all (entry_ok rt None None) entries
      \<longrightarrow> extract_urls_from_har rt har_file_path (Some []) (Some []) = Inr (map request_url entries))
   \<and> (fs rt (pathlib rt har_file_path) = Some (File content') \<and> json_load rt content' = Inr har_data'
        \<and> har_entries har_data' = Inr entries'
        \<and> outcome (load_cookies_from_har rt add_cookies ctx har_file_path (Some [])) = Inr cs
      \<longrightarrow> cs = map (make_cookie_obj rt)
                 (first_by_key rt {} (concat (map entry_cookies entries'))))"
proof -
  have cookies_same: "load_cookies_from_har rt add_cookies ctx har_file_path (Some [])
     = load_cookies_from_har rt add_cookies ctx har_file_path None"
    unfolding load_cookies_from_har_def entry_loop_empty by (rule refl)
  have domains_same: "extract_urls_from_har rt har_file_path (Some []) sf
     = extract_urls_from_har rt har_file_path None sf" for sf
    unfolding extract_urls_from_har_def url_loop_empty_domains by (rule refl)
  have status_same: "extract_urls_from_har rt har_file_path fd (Some [])
     = extract_urls_from_har rt har_file_path fd None" for fd
    unfolding extract_urls_from_har_def url_loop_empty_status by (rule refl)
  have every: "extract_urls_from_har rt har_file_path (Some []) (Some []) = Inr (map request_url entries)"
    if "fs rt har_file_path = Some (File content)" "json_load rt content = Inr har_data"
      "har_entries har_data = Inr entries" "list_all (entry_ok rt None None) entries"
  proof -
    have "admitted rt None None = (\<lambda>entry. True)"
      by (rule ext) (simp add: admitted_def status_admitted_def domain_admitted_def domain_filter_def)
    then show ?thesis
      using extract_urls_closed [OF that] by (simp add: domains_same status_same)
  qed
  have every_cookie: "cs = map (make_cookie_obj rt)
                 (first_by_key rt {} (concat (map entry_cookies entries')))"
    if "fs rt (pathlib rt har_file_path) = Some (File content')" "json_load rt content' = Inr har_data'"
      "har_entries har_data' = Inr entries'"
      "outcome (load_cookies_from_har rt add_cookies ctx har_file_path (Some [])) = Inr cs"
  proof -
    have "visited rt (Some []) entries' = concat (map entry_cookies entries')"
      by (simp add: visited_def domain_admitted_def domain_filter_def)
    then show ?thesis
      using load_cookies_closed [OF that] by simp
  qed
  show ?thesis
    using cookies_same domains_same status_same every every_cookie by blast
qed

theorem empty_filter_witness:
  "fs sample_rt ''session.har'' = Some (File ''SESSION'')
   \<and> fs sample_rt (pathlib sample_rt ''session.har'') = Some (File ''SESSION'')
   \<and> json_load sample_rt ''SESSION'' = Inr session_har
   \<and> har_entries session_har = Inr session_entries
   \<and> list_all (entry_ok sample_rt None None) session_entries
   \<and> extract_urls_from_har sample_rt ''session.har'' (Some []) (Some []) =
       Inr [JStr ''https://a.example.com/login'', JStr ''https://a.example.com/login'',
            JStr ''https://b.other.com/x'', JStr ''https://a.example.com:8443/api'']
   \<and> load_cookies_from_har sample_rt add_to_jar [] ''session.har'' (Some [])
       = load_cookies_from_har sample_rt add_to_jar [] ''session.har'' None
   \<and> outcome (load_cookies_from_har sample_rt add_to_jar [] ''session.har'' (Some []))
       = Inr [make_cookie_obj sample_rt cookie_sid, make_cookie_obj sample_rt cookie_theme,
              make_cookie_obj sample_rt cookie_track, make_cookie_obj sample_rt cookie_api]
   \<and> first_by_key sample_rt {} (concat (map entry_cookies session_entries))
       = [cookie_sid, cookie_theme, cookie_track, cookie_api]"
proof -
  let ?cs = "[make_cookie_obj sample_rt cookie_sid, make_cookie_obj sample_rt cookie_theme,
              make_cookie_obj sample_rt cookie_track, make_cookie_obj sample_rt cookie_api]"
  note t = empty_filter_is_no_filter [where rt = sample_rt and add_cookies = add_to_jar
      and ctx = "[]" and har_file_path = "''session.har''"]
  have same: "load_cookies_from_har sample_rt add_to_jar [] ''session.har'' (Some [])
       = load_cookies_from_har sample_rt add_to_jar [] ''session.har'' None"
    by (rule t [THEN conjunct1])
  have "extract_urls_from_har sample_rt ''session.har'' (Some []) (Some [])
      = Inr (map request_url session_entries)"
    using sample_file sample_decodes sample_entries sample_entries_ok
    by (intro t [where content = "''SESSION''" and har_data = session_har
          and entries = session_entries,
          THEN conjunct2, THEN conjunct2, THEN conjunct2, THEN conjunct1, THEN mp] conjI)
  then have urls: "extract_urls_from_har sample_rt ''session.har'' (Some []) (Some []) =
       Inr [JStr ''https://a.example.com/login'', JStr ''https://a.example.com/login'',
            JStr ''https://b.other.com/x'', JStr ''https://a.example.com:8443/api'']"
    by (simp add: session_entries_def har_entry_def request_url_def sub_get_def)
  have returned: "outcome (load_cookies_from_har sample_rt add_to_jar [] ''session.har'' (Some []))
      = Inr ?cs"
    unfolding same by (simp add: sample_cookies_loaded)
  have all_cookies: "first_by_key sample_rt {} (concat (map entry_cookies session_entries))
       = [cookie_sid, cookie_theme, cookie_track, cookie_api]"
    by (simp add: session_entries_def har_entry_def entry_cookies_def sub_get_def
        cookie_key_def get_or_def cookie_sid_def cookie_theme_def cookie_sid_again_def
        cookie_track_def cookie_api_def)
  have "?cs = map (make_cookie_obj sample_rt)
                 (first_by_key sample_rt {} (concat (map entry_cookies session_entries)))"
    using sample_path_file sample_decodes sample_entries returned
    by (intro t [where content' = "''SESSION''" and har_data' = session_har
          and entries' = session_entries and cs = ?cs,
          THEN conjunct2, THEN conjunct2, THEN conjunct2, THEN conjunct2, THEN mp] conjI)
  show ?thesis
    by (intro conjI sample_file sample_path_file sample_decodes sample_entries sample_entries_ok
        urls same returned all_cookies)
qed

section \<open>The session adapter and repeated calls\<close>

text \<open>
  Claim C7, as amended. When \<^verbatim>\<open>get_session\<close> gives None, or a session whose context is
  None, \<^verbatim>\<open>load_from_har\<close> logs one error and returns: nothing is raised, no file is read
  and no cookie is injected (the result does not depend on the runtime, the path or
  \<open>add_cookies\<close>). When the context object itself is None or \<^verbatim>\<open>get_session\<close> raises,
  the exception leaves the method and nothing is logged: line 26 is outside the
  \<^verbatim>\<open>try\<close>. In every other case an exception of \<^verbatim>\<open>load_cookies_from_har\<close> that
  \<^verbatim>\<open>except Exception\<close> catches is logged with its message, after whatever was logged
  before, and raised again unchanged; this is spelled out for an exception of the
  extraction loops and for one of \<open>add_cookies\<close>. An exception of another class
  (\<^verbatim>\<open>CancelledError\<close>, \<^verbatim>\<open>KeyboardInterrupt\<close>) leaves the method without that log
  record.
\<close>

theorem session_adapter_policy:
  "load_from_har rt add_cookies (Some (Inr None)) har_file_path filter_domains
     = \<lparr> outcome = Inr (), jar = None, logs = [(ERROR, NoValidSession)] \<rparr>
   \<and> load_from_har rt add_cookies (Some (Inr (Some \<lparr> session_context = None \<rparr>)))
        har_file_path filter_domains
     = \<lparr> outcome = Inr (), jar = None, logs = [(ERROR, NoValidSession)] \<rparr>
   \<and> load_from_har rt add_cookies None har_file_path filter_domains
     = \<lparr> outcome = Inl AttributeError, jar = None, logs = [] \<rparr>
   \<and> load_from_har rt add_cookies (Some (Inl e0)) har_file_path filter_domains
     = \<lparr> outcome = Inl e0, jar = None, logs = [] \<rparr>
   \<and> (outcome (load_cookies_from_har rt add_cookies ctx har_file_path filter_domains) = Inl e
        \<and> is_Exception e
      \<longrightarrow> load_from_har rt add_cookies (Some (Inr (Some \<lparr> session_context = Some ctx \<rparr>)))
            har_file_path filter_domains
          = \<lparr> outcome = Inl e,
              jar = Some (jar (load_cookies_from_har rt add_cookies ctx har_file_path filter_domains)),
              logs = logs (load_cookies_from_har rt add_cookies ctx har_file_path filter_domains)
                     @ [(ERROR, LoadFailed e)] \<rparr>)
   \<and> (outcome (load_cookies_from_har rt add_cookies ctx har_file_path filter_domains) = Inl e
        \<and> \<not> is_Exception e
      \<longrightarrow> load_from_har rt add_cookies (Some (Inr (Some \<lparr> session_context = Some ctx \<rparr>)))
            har_file_path filter_domains
          = \<lparr> outcome = Inl e,
              jar = Some (jar (load_cookies_from_har rt add_cookies ctx har_file_path filter_domains)),
              logs = logs (load_cookies_from_har rt add_cookies ctx har_file_path filter_domains) \<rparr>)
   \<and> (fs rt (pathlib rt har_file_path) = Some (File content) \<and> json_load rt content = Inr har_data
        \<and> har_entries har_data = Inr entries
        \<and> entry_loop rt filter_domains entries
              \<lparr> cookies = [], processed_cookies = {}, logged = [] \<rparr> = (Some e, st)
        \<and> is_Exception e
      \<longrightarrow> load_from_har rt add_cookies (Some (Inr (Some \<lparr> session_context = Some ctx \<rparr>)))
            har_file_path filter_domains
          = \<lparr> outcome = Inl e, jar = Some ctx, logs = logged st @ [(ERROR, LoadFailed e)] \<rparr>)
   \<and> (fs rt (pathlib rt har_file_path) = Some (File content) \<and> json_load rt content = Inr har_data
        \<and> har_entries har_data = Inr entries
        \<and> entry_loop rt filter_domains entries
              \<lparr> cookies = [], processed_cookies = {}, logged = [] \<rparr> = (None, st)
        \<and> cookies st \<noteq> [] \<and> add_cookies ctx (cookies st) = (Some e, ctx')
        \<and> is_Exception e
      \<longrightarrow> load_from_har rt add_cookies (Some (Inr (Some \<lparr> session_context = Some ctx \<rparr>)))
            har_file_path filter_domains
          = \<lparr> outcome = Inl e, jar = Some ctx',
              logs = logged st @ [(INFO, LoadedCookies (length (cookies st))),
                                  (ERROR, LoadFailed e)] \<rparr>)"
proof -
  let ?session = "Some (Inr (Some \<lparr> session_context = Some ctx \<rparr>))"
  have no_session: "load_from_har rt add_cookies (Some (Inr None)) har_file_path filter_domains
     = \<lparr> outcome = Inr (), jar = None, logs = [(ERROR, NoValidSession)] \<rparr>"
    by (simp add: load_from_har_def)
  have no_context:
    "load_from_har rt add_cookies (Some (Inr (Some \<lparr> session_context = None \<rparr>)))
        har_file_path filter_domains
     = \<lparr> outcome = Inr (), jar = None, logs = [(ERROR, NoValidSession)] \<rparr>"
    by (simp add: load_from_har_def)
  have null_context: "load_from_har rt add_cookies None har_file_path filter_domains
     = \<lparr> outcome = Inl AttributeError, jar = None, logs = [] \<rparr>"
    by (simp add: load_from_har_def)
  have session_raises: "load_from_har rt add_cookies (Some (Inl e0)) har_file_path filter_domains
     = \<lparr> outcome = Inl e0, jar = None, logs = [] \<rparr>"
    by (simp add: load_from_har_def)
  have raised: "load_from_har rt add_cookies ?session har_file_path filter_domains
          = \<lparr> outcome = Inl e,
              jar = Some (jar (load_cookies_from_har rt add_cookies ctx har_file_path filter_domains)),
              logs = logs (load_cookies_from_har rt add_cookies ctx har_file_path filter_domains)
                     @ [(ERROR, LoadFailed e)] \<rparr>"
    if "outcome (load_cookies_from_har rt add_cookies ctx har_file_path filter_domains) = Inl e"
      "is_Exception e"
    using that by (simp add: load_from_har_def Let_def)
  have passed: "load_from_har rt add_cookies ?session har_file_path filter_domains
          = \<lparr> outcome = Inl e,
              jar = Some (jar (load_cookies_from_har rt add_cookies ctx har_file_path filter_domains)),
              logs = logs (load_cookies_from_har rt add_cookies ctx har_file_path filter_domains) \<rparr>"
    if "outcome (load_cookies_from_har rt add_cookies ctx har_file_path filter_domains) = Inl e"
      "\<not> is_Exception e"
    using that by (simp add: load_from_har_def Let_def)
  have extraction: "load_from_har rt add_cookies ?session har_file_path filter_domains
          = \<lparr> outcome = Inl e, jar = Some ctx, logs = logged st @ [(ERROR, LoadFailed e)] \<rparr>"
    if "fs rt (pathlib rt har_file_path) = Some (File content)" "json_load rt content = Inr har_data"
      "har_entries har_data = Inr entries"
      "entry_loop rt filter_domains entries
              \<lparr> cookies = [], processed_cookies = {}, logged = [] \<rparr> = (Some e, st)"
      "is_Exception e"
    using that(4,5) by (simp add: load_from_har_def Let_def load_cookies_on_entries [OF that(1-3)])
  have injection: "load_from_har rt add_cookies ?session har_file_path filter_domains
          = \<lparr> outcome = Inl e, jar = Some ctx',
              logs = logged st @ [(INFO, LoadedCookies (length (cookies st))),
                                  (ERROR, LoadFailed e)] \<rparr>"
    if "fs rt (pathlib rt har_file_path) = Some (File content)" "json_load rt content = Inr har_data"
      "har_entries har_data = Inr entries"
      "entry_loop rt filter_domains entries
              \<lparr> cookies = [], processed_cookies = {}, logged = [] \<rparr> = (None, st)"
      "cookies st \<noteq> []" "add_cookies ctx (cookies st) = (Some e, ctx')" "is_Exception e"
    using that(4-7) by (simp add: load_from_har_def Let_def load_cookies_on_entries [OF that(1-3)])
  show ?thesis
    using no_session no_context null_context session_raises raised passed extraction injection
    by blast
qed

text \<open>
  Claim C8. A second call on the same runtime (the same files), made after a first call
  that returned, and on the browser context the first call left, logs the same records and
  cannot return another list: it returns the same list whenever its own injection succeeds.
  Nothing of the first call's \<open>processed_cookies\<close> reaches the second, which starts from the
  empty set again.
\<close>

theorem repeated_extraction_is_idempotent:
  assumes "outcome (load_cookies_from_har rt add_cookies ctx har_file_path filter_domains) = Inr cs"
  shows "logs (load_cookies_from_har rt add_cookies
                 (jar (load_cookies_from_har rt add_cookies ctx har_file_path filter_domains))
                 har_file_path filter_domains)
           = logs (load_cookies_from_har rt add_cookies ctx har_file_path filter_domains)
       \<and> (\<forall>cs'. outcome (load_cookies_from_har rt add_cookies
                 (jar (load_cookies_from_har rt add_cookies ctx har_file_path filter_domains))
                 har_file_path filter_domains) = Inr cs' \<longrightarrow> cs' = cs)
       \<and> (fst (add_cookies
                 (jar (load_cookies_from_har rt add_cookies ctx har_file_path filter_domains)) cs) = None
            \<longrightarrow> outcome (load_cookies_from_har rt add_cookies
                 (jar (load_cookies_from_har rt add_cookies ctx har_file_path filter_domains))
                 har_file_path filter_domains) = Inr cs)"
proof -
  obtain content har_data es st where
      read: "fs rt (pathlib rt har_file_path) = Some (File content)"
        "json_load rt content = Inr har_data" "har_entries har_data = Inr es"
      and run: "entry_loop rt filter_domains es
                  \<lparr> cookies = [], processed_cookies = {}, logged = [] \<rparr> = (None, st)"
      and cs: "cookies st = cs"
    using load_cookies_returns [OF assms] by blast
  show ?thesis
    using assms cs unfolding load_cookies_on_entries [OF read] run
    by (auto split: prod.splits option.splits if_splits)
qed

theorem session_adapter_witness:
  "load_from_har sample_rt add_to_jar (Some (Inr None)) ''session.har'' None
     = \<lparr> outcome = Inr (), jar = None, logs = [(ERROR, NoValidSession)] \<rparr>
   \<and> load_from_har sample_rt add_to_jar (Some (Inr (Some \<lparr> session_context = None \<rparr>)))
        ''session.har'' None
     = \<lparr> outcome = Inr (), jar = None, logs = [(ERROR, NoValidSession)] \<rparr>
   \<and> load_from_har sample_rt add_to_jar None ''session.har'' None
     = \<lparr> outcome = Inl AttributeError, jar = None, logs = [] \<rparr>
   \<and> load_from_har sample_rt add_to_jar (Some (Inl (ExternalError ''Browser closed'')))
        ''session.har'' None
     = \<lparr> outcome = Inl (ExternalError ''Browser closed''), jar = None, logs = [] \<rparr>
   \<and> outcome (load_cookies_from_har sample_rt add_to_jar [] ''missing.har'' None)
     = Inl (FileNotFoundError ''missing.har'')
   \<and> is_Exception (FileNotFoundError ''missing.har'')
   \<and> load_from_har sample_rt add_to_jar (Some (Inr (Some \<lparr> session_context = Some [] \<rparr>)))
        ''missing.har'' None
     = \<lparr> outcome = Inl (FileNotFoundError ''missing.har''), jar = Some [],
         logs = [(ERROR, LoadFailed (FileNotFoundError ''missing.har''))] \<rparr>
   \<and> outcome (load_cookies_from_har sample_rt add_cancelled [] ''session.har'' None)
     = Inl CancelledError
   \<and> \<not> is_Exception CancelledError
   \<and> load_from_har sample_rt add_cancelled (Some (Inr (Some \<lparr> session_context = Some [] \<rparr>)))
        ''session.har'' None
     = \<lparr> outcome = Inl CancelledError, jar = Some [],
         logs = [(WARNING, InvalidExpires (JStr ''theme'')), (INFO, LoadedCookies 4)] \<rparr>
   \<and> fs sample_rt (pathlib sample_rt ''odd.har'') = Some (File ''ODD'')
   \<and> json_load sample_rt ''ODD'' = Inr odd_har
   \<and> har_entries odd_har
     = Inr [har_entry ''https://a.example.com/'' [JObj cookie_theme, JStr ''sid=abc''] 200]
   \<and> entry_loop sample_rt None
        [har_entry ''https://a.example.com/'' [JObj cookie_theme, JStr ''sid=abc''] 200]
        \<lparr> cookies = [], processed_cookies = {}, logged = [] \<rparr>
     = (Some AttributeError,
        \<lparr> cookies = [make_cookie_obj sample_rt cookie_theme],
          processed_cookies = {''theme@a.example.com''},
          logged = [(WARNING, InvalidExpires (JStr ''theme''))] \<rparr>)
   \<and> is_Exception AttributeError
   \<and> load_from_har sample_rt add_to_jar (Some (Inr (Some \<lparr> session_context = Some [] \<rparr>)))
        ''odd.har'' None
     = \<lparr> outcome = Inl AttributeError, jar = Some [],
         logs = [(WARNING, InvalidExpires (JStr ''theme'')), (ERROR, LoadFailed AttributeError)] \<rparr>
   \<and> fs sample_rt (pathlib sample_rt ''session.har'') = Some (File ''SESSION'')
   \<and> json_load sample_rt ''SESSION'' = Inr session_har
   \<and> har_entries session_har = Inr session_entries
   \<and> add_fails [] [make_cookie_obj sample_rt cookie_sid, make_cookie_obj sample_rt cookie_theme,
                    make_cookie_obj sample_rt cookie_track, make_cookie_obj sample_rt cookie_api]
     = (Some (ExternalError ''Target closed''), [])
   \<and> is_Exception (ExternalError ''Target closed'')
   \<and> load_from_har sample_rt add_fails (Some (Inr (Some \<lparr> session_context = Some [] \<rparr>)))
        ''session.har'' None
     = \<lparr> outcome = Inl (ExternalError ''Target closed''), jar = Some [],
         logs = [(WARNING, InvalidExpires (JStr ''theme'')), (INFO, LoadedCookies 4),
                 (ERROR, LoadFailed (ExternalError ''Target closed''))] \<rparr>"
proof -
  let ?cs = "[make_cookie_obj sample_rt cookie_sid, make_cookie_obj sample_rt cookie_theme,
              make_cookie_obj sample_rt cookie_track, make_cookie_obj sample_rt cookie_api]"
  let ?odd = "[har_entry ''https://a.example.com/'' [JObj cookie_theme, JStr ''sid=abc''] 200]"
  let ?session = "Some (Inr (Some \<lparr> session_context = Some ([] :: cookie_obj list) \<rparr>))"
  let ?end = "\<lparr> cookies = ?cs,
                processed_cookies = {''api@a.example.com'', ''track@b.other.com'',
                                     ''theme@a.example.com'', ''sid@a.example.com''},
                logged = [(WARNING, InvalidExpires (JStr ''theme''))] \<rparr>"
  note t = session_adapter_policy [where rt = sample_rt and filter_domains = None]
  have no_session: "load_from_har sample_rt add_to_jar (Some (Inr None)) ''session.har'' None
     = \<lparr> outcome = Inr (), jar = None, logs = [(ERROR, NoValidSession)] \<rparr>"
    by (rule t [where add_cookies = add_to_jar and har_file_path = "''session.har''",
          THEN conjunct1])
  have no_context:
    "load_from_har sample_rt add_to_jar (Some (Inr (Some \<lparr> session_context = None \<rparr>)))
        ''session.har'' None
     = \<lparr> outcome = Inr (), jar = None, logs = [(ERROR, NoValidSession)] \<rparr>"
    by (rule t [where add_cookies = add_to_jar and har_file_path = "''session.har''",
          THEN conjunct2, THEN conjunct1])
  have null_context: "load_from_har sample_rt add_to_jar None ''session.har'' None
     = \<lparr> outcome = Inl AttributeError, jar = None, logs = [] \<rparr>"
    by (rule t [where add_cookies = add_to_jar and har_file_path = "''session.har''",
          THEN conjunct2, THEN conjunct2, THEN conjunct1])
  have session_raises:
    "load_from_har sample_rt add_to_jar (Some (Inl (ExternalError ''Browser closed'')))
        ''session.har'' None
     = \<lparr> outcome = Inl (ExternalError ''Browser closed''), jar = None, logs = [] \<rparr>"
    by (rule t [where add_cookies = add_to_jar and har_file_path = "''session.har''"
          and ?e0.0 = "ExternalError ''Browser closed''",
          THEN conjunct2, THEN conjunct2, THEN conjunct2, THEN conjunct1])
  have missing: "load_cookies_from_har sample_rt add_to_jar [] ''missing.har'' None
     = \<lparr> outcome = Inl (FileNotFoundError ''missing.har''), jar = [], logs = [] \<rparr>"
    by (simp add: load_cookies_from_har_def Let_def path_exists_def sample_rt_def posix_path_def
        sample_files_def)
  then have missing_raises:
    "outcome (load_cookies_from_har sample_rt add_to_jar [] ''missing.har'' None)
       = Inl (FileNotFoundError ''missing.har'')"
    by simp
  have caught: "is_Exception (FileNotFoundError ''missing.har'')" "is_Exception AttributeError"
    "is_Exception (ExternalError ''Target closed'')" "\<not> is_Exception CancelledError"
    by simp_all
  have "load_from_har sample_rt add_to_jar ?session ''missing.har'' None
     = \<lparr> outcome = Inl (FileNotFoundError ''missing.har''),
         jar = Some (jar (load_cookies_from_har sample_rt add_to_jar [] ''missing.har'' None)),
         logs = logs (load_cookies_from_har sample_rt add_to_jar [] ''missing.har'' None)
                @ [(ERROR, LoadFailed (FileNotFoundError ''missing.har''))] \<rparr>"
    using missing_raises caught(1)
    by (intro t [where add_cookies = add_to_jar and har_file_path = "''missing.har''"
          and ctx = "[]" and e = "FileNotFoundError ''missing.har''",
          THEN conjunct2, THEN conjunct2, THEN conjunct2, THEN conjunct2, THEN conjunct1, THEN mp]
        conjI)
  then have raised: "load_from_har sample_rt add_to_jar ?session ''missing.har'' None
     = \<lparr> outcome = Inl (FileNotFoundError ''missing.har''), jar = Some [],
         logs = [(ERROR, LoadFailed (FileNotFoundError ''missing.har''))] \<rparr>"
    by (simp add: missing)
  have cancelled: "load_cookies_from_har sample_rt add_cancelled [] ''session.har'' None
     = \<lparr> outcome = Inl CancelledError, jar = [],
         logs = [(WARNING, InvalidExpires (JStr ''theme'')), (INFO, LoadedCookies 4)] \<rparr>"
    unfolding load_cookies_on_entries [OF sample_path_file sample_decodes sample_entries] sample_loop
    by (simp add: add_cancelled_def)
  then have cancelled_raises:
    "outcome (load_cookies_from_har sample_rt add_cancelled [] ''session.har'' None)
       = Inl CancelledError"
    by simp
  have "load_from_har sample_rt add_cancelled ?session ''session.har'' None
     = \<lparr> outcome = Inl CancelledError,
         jar = Some (jar (load_cookies_from_har sample_rt add_cancelled [] ''session.har'' None)),
         logs = logs (load_cookies_from_har sample_rt add_cancelled [] ''session.har'' None) \<rparr>"
    using cancelled_raises caught(4)
    by (intro t [where add_cookies = add_cancelled and har_file_path = "''session.har''"
          and ctx = "[]" and e = CancelledError,
          THEN conjunct2, THEN conjunct2, THEN conjunct2, THEN conjunct2, THEN conjunct2,
          THEN conjunct1, THEN mp]
        conjI)
  then have passed: "load_from_har sample_rt add_cancelled ?session ''session.har'' None
     = \<lparr> outcome = Inl CancelledError, jar = Some [],
         logs = [(WARNING, InvalidExpires (JStr ''theme'')), (INFO, LoadedCookies 4)] \<rparr>"
    by (simp add: cancelled)
  have "load_from_har sample_rt add_to_jar ?session ''odd.har'' None
     = \<lparr> outcome = Inl AttributeError, jar = Some [],
         logs = logged \<lparr> cookies = [make_cookie_obj sample_rt cookie_theme],
                    processed_cookies = {''theme@a.example.com''},
                    logged = [(WARNING, InvalidExpires (JStr ''theme''))] \<rparr>
                @ [(ERROR, LoadFailed AttributeError)] \<rparr>"
    using odd_file odd_loop caught(2)
    by (intro t [where add_cookies = add_to_jar and har_file_path = "''odd.har''"
          and ctx = "[]" and e = AttributeError and content = "''ODD''" and har_data = odd_har
          and entries = ?odd,
          THEN conjunct2, THEN conjunct2, THEN conjunct2, THEN conjunct2, THEN conjunct2,
          THEN conjunct2, THEN conjunct1, THEN mp]
        conjI)
  then have extraction: "load_from_har sample_rt add_to_jar ?session ''odd.har'' None
     = \<lparr> outcome = Inl AttributeError, jar = Some [],
         logs = [(WARNING, InvalidExpires (JStr ''theme'')), (ERROR, LoadFailed AttributeError)] \<rparr>"
    by simp
  have refuses: "add_fails [] ?cs = (Some (ExternalError ''Target closed''), [])"
    by (simp add: add_fails_def)
  have filled: "cookies ?end \<noteq> []"
    by simp
  have refuses': "add_fails [] (cookies ?end) = (Some (ExternalError ''Target closed''), [])"
    by (simp add: add_fails_def)
  have "load_from_har sample_rt add_fails ?session ''session.har'' None
     = \<lparr> outcome = Inl (ExternalError ''Target closed''), jar = Some [],
         logs = logged ?end
                @ [(INFO, LoadedCookies (length (cookies ?end))),
                   (ERROR, LoadFailed (ExternalError ''Target closed''))] \<rparr>"
    using sample_path_file sample_decodes sample_entries sample_loop filled refuses' caught(3)
    by (intro t [where add_cookies = add_fails and har_file_path = "''session.har''"
          and ctx = "[]" and e = "ExternalError ''Target closed''" and content = "''SESSION''"
          and har_data = session_har and entries = session_entries and ctx' = "[]"
          and st = ?end,
          THEN conjunct2, THEN conjunct2, THEN conjunct2, THEN conjunct2, THEN conjunct2,
          THEN conjunct2, THEN conjunct2, THEN mp]
        conjI)
  then have injection: "load_from_har sample_rt add_fails ?session ''session.har'' None
     = \<lparr> outcome = Inl (ExternalError ''Target closed''), jar = Some [],
         logs = [(WARNING, InvalidExpires (JStr ''theme'')), (INFO, LoadedCookies 4),
                 (ERROR, LoadFailed (ExternalError ''Target closed''))] \<rparr>"
    by simp
  show ?thesis
    by (intro conjI no_session no_context null_context session_raises missing_raises caught
        raised cancelled_raises passed odd_file odd_loop extraction
        sample_path_file sample_decodes sample_entries refuses injection)
qed

text \<open>With None for the context object the call raises \<^verbatim>\<open>AttributeError\<close> and logs
  nothing. With a session, a cancellation while \<^verbatim>\<open>add_cookies\<close> is awaited leaves the
  method without the error record of line 40.\<close>

theorem null_context_counterexample:
  "load_from_har sample_rt add_to_jar None ''session.har'' None
     = \<lparr> outcome = Inl AttributeError, jar = None, logs = [] \<rparr>
   \<and> load_from_har sample_rt add_cancelled (Some (Inr (Some \<lparr> session_context = Some [] \<rparr>)))
        ''session.har'' None
     = \<lparr> outcome = Inl CancelledError, jar = Some [],
         logs = [(WARNING, InvalidExpires (JStr ''theme'')), (INFO, LoadedCookies 4)] \<rparr>"
proof -
  have cancelled: "load_cookies_from_har sample_rt add_cancelled [] ''session.har'' None
     = \<lparr> outcome = Inl CancelledError, jar = [],
         logs = [(WARNING, InvalidExpires (JStr ''theme'')), (INFO, LoadedCookies 4)] \<rparr>"
    unfolding load_cookies_on_entries [OF sample_path_file sample_decodes sample_entries] sample_loop
    by (simp add: add_cancelled_def)
  show ?thesis
    by (simp add: load_from_har_def Let_def cancelled)
qed

theorem repeated_extraction_witness:
  "outcome (load_cookies_from_har sample_rt add_to_jar [] ''session.har'' None)
     = Inr [make_cookie_obj sample_rt cookie_sid, make_cookie_obj sample_rt cookie_theme,
            make_cookie_obj sample_rt cookie_track, make_cookie_obj sample_rt cookie_api]
   \<and> jar (load_cookies_from_har sample_rt add_to_jar [] ''session.har'' None)
     = [make_cookie_obj sample_rt cookie_sid, make_cookie_obj sample_rt cookie_theme,
        make_cookie_obj sample_rt cookie_track, make_cookie_obj sample_rt cookie_api]
   \<and> outcome (load_cookies_from_har sample_rt add_to_jar
        [make_cookie_obj sample_rt cookie_sid, make_cookie_obj sample_rt cookie_theme,
         make_cookie_obj sample_rt cookie_track, make_cookie_obj sample_rt cookie_api]
        ''session.har'' None)
     = Inr [make_cookie_obj sample_rt cookie_sid, make_cookie_obj sample_rt cookie_theme,
            make_cookie_obj sample_rt cookie_track, make_cookie_obj sample_rt cookie_api]
   \<and> logs (load_cookies_from_har sample_rt add_to_jar
        [make_cookie_obj sample_rt cookie_sid, make_cookie_obj sample_rt cookie_theme,
         make_cookie_obj sample_rt cookie_track, make_cookie_obj sample_rt cookie_api]
        ''session.har'' None)
     = [(WARNING, InvalidExpires (JStr ''theme'')), (INFO, LoadedCookies 4)]"
proof -
  let ?cs = "[make_cookie_obj sample_rt cookie_sid, make_cookie_obj sample_rt cookie_theme,
              make_cookie_obj sample_rt cookie_track, make_cookie_obj sample_rt cookie_api]"
  let ?r1 = "load_cookies_from_har sample_rt add_to_jar [] ''session.har'' None"
  have first: "outcome ?r1 = Inr ?cs"
    by (simp add: sample_cookies_loaded)
  have left: "jar ?r1 = ?cs"
    by (simp add: sample_cookies_loaded)
  have said: "logs ?r1 = [(WARNING, InvalidExpires (JStr ''theme'')), (INFO, LoadedCookies 4)]"
    by (simp add: sample_cookies_loaded)
  have accepts: "fst (add_to_jar (jar ?r1) ?cs) = None"
    by (simp add: add_to_jar_def)
  note t = repeated_extraction_is_idempotent [OF first]
  have again: "outcome (load_cookies_from_har sample_rt add_to_jar (jar ?r1) ''session.har'' None)
      = Inr ?cs"
    using t [THEN conjunct2, THEN conjunct2] accepts by (rule mp)
  have says: "logs (load_cookies_from_har sample_rt add_to_jar (jar ?r1) ''session.har'' None)
      = logs ?r1"
    by (rule t [THEN conjunct1])
  have again': "outcome (load_cookies_from_har sample_rt add_to_jar ?cs ''session.har'' None)
      = Inr ?cs"
    using again by (simp only: left)
  have says': "logs (load_cookies_from_har sample_rt add_to_jar ?cs ''session.har'' None)
      = [(WARNING, InvalidExpires (JStr ''theme'')), (INFO, LoadedCookies 4)]"
    using says by (simp only: left said)
  show ?thesis
    by (intro conjI first left again' says')
qed

end
